theory Spec2Isabelle
  imports Complex_Main
begin

section \<open>Values of the Python programs\<close>

text \<open>
  The two source files are Python 2 (\<^verbatim>\<open>print\<close> statements, no
  \<^verbatim>\<open>from __future__ import division\<close>). Their floats are modelled as
  reals: \<^verbatim>\<open>+\<close>, \<^verbatim>\<open>*\<close>, \<^verbatim>\<open>/\<close>, square root and
  arccosine are the exact ones, and comparisons with the literals \<^verbatim>\<open>0.001\<close>,
  \<^verbatim>\<open>0.999\<close>, ... are comparisons with these decimal fractions. Where numpy would
  go on with \<^verbatim>\<open>nan\<close> or \<^verbatim>\<open>inf\<close> (a division by a zero norm), the
  model stops with \<open>NotANumber\<close>; every exception the source raises is a constructor of
  \<open>pyerr\<close>.
\<close>

datatype pyerr =
    TypeError
  | NameError
  | IndexError
  | ZeroDivisionError
  | LinAlgError
  | StandardError
  | SystemError string
  | DegenerateVectorError
  | NotANumber

datatype 'a pyvalue = PyNone | PyList "'a list"

text \<open>
  The argument \<^verbatim>\<open>maxindex\<close>: a Python number, or a one-dimensional numpy array of
  integers.
\<close>

datatype pyobj = PyInt int | NpArray "int list"

text \<open>Sequencing of two computations that may raise.\<close>

definition bind_err :: "pyerr + 'a \<Rightarrow> ('a \<Rightarrow> pyerr + 'b) \<Rightarrow> pyerr + 'b" where
  "bind_err m f = (case m of Inl e \<Rightarrow> Inl e | Inr x \<Rightarrow> f x)"

type_synonym vec3 = "real \<times> real \<times> real"
type_synonym mat3 = "vec3 \<times> vec3 \<times> vec3"
type_synonym atom4 = "real \<times> real \<times> real \<times> real"
type_synonym miller = "int \<times> int \<times> int"

section \<open>\<^verbatim>\<open>pymatgen/phonons/strain.py\<close>: \<^verbatim>\<open>Deformation.from_index_amount\<close>\<close>

text \<open>\<^verbatim>\<open>np.identity(n)\<close> as a list of rows.\<close>

definition identity :: "nat \<Rightarrow> real list list" where
  "identity n = map (\<lambda>i. map (\<lambda>j. if i = j then 1 else 0) [0..<n]) [0..<n]"

text \<open>
  One component of an index tuple into an axis of length \<open>n\<close>: numpy counts a negative
  index from the end and raises \<^verbatim>\<open>IndexError\<close> outside \<open>-n \<dots> n-1\<close>.
\<close>

definition np_index :: "nat \<Rightarrow> int \<Rightarrow> pyerr + nat" where
  "np_index n i =
     (if 0 \<le> i \<and> i < int n then Inr (nat i)
      else if - int n \<le> i \<and> i < 0 then Inr (nat (i + int n))
      else Inl IndexError)"

text \<open>
  \<^verbatim>\<open>F = np.identity(3); F[matrixpos] += amt; return cls(F)\<close>, for a position
  \<^verbatim>\<open>matrixpos = (r, c)\<close>. The class \<^verbatim>\<open>SQTensor\<close> that \<^verbatim>\<open>cls(F)\<close> views
  the array as is not part of the sources; the deformation is the array itself.
\<close>

definition from_index_amount :: "int \<times> int \<Rightarrow> real \<Rightarrow> pyerr + real list list" where
  "from_index_amount matrixpos amt =
     (case matrixpos of (r, c) \<Rightarrow>
        (case np_index 3 r of
           Inl e \<Rightarrow> Inl e
         | Inr i \<Rightarrow>
            (case np_index 3 c of
               Inl e \<Rightarrow> Inl e
             | Inr j \<Rightarrow>
                (let F = identity 3
                 in Inr (F[i := (F ! i)[j := F ! i ! j + amt]])))))"

section \<open>\<^verbatim>\<open>pymatgen/surface/buildbasis.py\<close>\<close>

subsection \<open>Vectors\<close>

fun vadd :: "vec3 \<Rightarrow> vec3 \<Rightarrow> vec3" where
  "vadd (a, b, c) (x, y, z) = (a + x, b + y, c + z)"

fun vsub :: "vec3 \<Rightarrow> vec3 \<Rightarrow> vec3" where
  "vsub (a, b, c) (x, y, z) = (a - x, b - y, c - z)"

fun smul :: "real \<Rightarrow> vec3 \<Rightarrow> vec3" where
  "smul k (x, y, z) = (k * x, k * y, k * z)"

fun dot :: "vec3 \<Rightarrow> vec3 \<Rightarrow> real" where
  "dot (a, b, c) (x, y, z) = a * x + b * y + c * z"

text \<open>\<^verbatim>\<open>np.cross\<close> and \<^verbatim>\<open>npl.norm\<close> on 3-vectors.\<close>

fun cross :: "vec3 \<Rightarrow> vec3 \<Rightarrow> vec3" where
  "cross (a, b, c) (x, y, z) = (b * z - c * y, c * x - a * z, a * y - b * x)"

definition norm3 :: "vec3 \<Rightarrow> real" where
  "norm3 v = sqrt (dot v v)"

text \<open>Component \<^verbatim>\<open>v[k]\<close> of a vector and row \<^verbatim>\<open>M[k]\<close> of a matrix, \<open>k\<close> in \<open>0, 1, 2\<close>.\<close>

fun coord :: "vec3 \<Rightarrow> nat \<Rightarrow> real" where
  "coord (x, y, z) k = (if k = 0 then x else if k = 1 then y else z)"

fun row :: "mat3 \<Rightarrow> nat \<Rightarrow> vec3" where
  "row (r0, r1, r2) k = (if k = 0 then r0 else if k = 1 then r1 else r2)"

subsection \<open>The helpers of \<^verbatim>\<open>surftool\<close>\<close>

text \<open>
  Modelled from the spec: \<^verbatim>\<open>pymatgen.surface.surftool\<close> is imported by
  \<^verbatim>\<open>buildbasis.py\<close> and is not among the sources. Section 4.1 of the specification
  gives \<^verbatim>\<open>ang\<close> as the arccosine of the normalized dot product, failing on a vector
  of zero length, \<^verbatim>\<open>proj(u, v)\<close> as \<open>(u\<cdot>v / u\<cdot>u) u\<close> and \<^verbatim>\<open>sproj(uHat, v)\<close>
  as \<open>uHat\<cdot>v\<close>.
\<close>

definition ang :: "vec3 \<Rightarrow> vec3 \<Rightarrow> pyerr + real" where
  "ang v1 v2 =
     (if norm3 v1 = 0 \<or> norm3 v2 = 0 then Inl DegenerateVectorError
      else Inr (arccos (dot v1 v2 / (norm3 v1 * norm3 v2))))"

definition proj :: "vec3 \<Rightarrow> vec3 \<Rightarrow> pyerr + vec3" where
  "proj u v = (if dot u u = 0 then Inl NotANumber else Inr (smul (dot u v / dot u u) u))"

definition sproj :: "vec3 \<Rightarrow> vec3 \<Rightarrow> real" where
  "sproj uHat v = dot uHat v"

text \<open>
  \<^verbatim>\<open>getmillerfrom2v\<close>, \<^verbatim>\<open>getsymfam\<close> and \<^verbatim>\<open>get2vectsinplane\<close> of the same
  module are parameters of the model: the specification leaves the order that picks the
  representative of a symmetry family open.
\<close>

record ('pg) surftool =
  getmillerfrom2v :: "mat3 \<Rightarrow> vec3 \<Rightarrow> vec3 \<Rightarrow> pyerr + miller"
  getsymfam :: "mat3 \<Rightarrow> miller \<Rightarrow> 'pg \<Rightarrow> pyerr + miller list"
  get2vectsinplane :: "mat3 \<Rightarrow> int list \<Rightarrow> pyerr + ((vec3 \<times> vec3) \<times> mat3)"

text \<open>
  An instance of these parameters, for running the function on concrete inputs: it gives
  every pair the Miller index \<open>(1,0,0)\<close> and the family that consists of the index alone,
  as a point group would under which all planes are equivalent.
\<close>

definition one_family :: "unit surftool" where
  "one_family =
     \<lparr>getmillerfrom2v = (\<lambda>b v1 v2. Inr (1, 0, 0)), getsymfam = (\<lambda>b m pg. Inr [m]),
      get2vectsinplane = (\<lambda>b xs. Inl NameError)\<rparr>"

subsection \<open>The candidate \<^verbatim>\<open>Sobat\<close>\<close>

record sobat =
  threepts :: mat3
  twovects :: "vec3 \<times> vec3"
  v3 :: vec3
  standardbasis :: mat3
  millerindex :: miller
  atomcoords :: "atom4 list"

text \<open>\<^verbatim>\<open>Sobat.newbasisvolume\<close> and \<^verbatim>\<open>Sobat.v1xv2\<close>.\<close>

definition newbasisvolume :: "sobat \<Rightarrow> real" where
  "newbasisvolume S =
     (let POSBAS = standardbasis S
      in \<bar>dot (row POSBAS 0) (cross (row POSBAS 1) (row POSBAS 2))\<bar>)"

definition v1xv2 :: "sobat \<Rightarrow> vec3" where
  "v1xv2 S = cross (fst (twovects S)) (snd (twovects S))"

definition eye3 :: mat3 where
  "eye3 = ((1, 0, 0), (0, 1, 0), (0, 0, 1))"

subsection \<open>Enumeration: lattice points and point triples (lines 77-99)\<close>

definition bravaissup :: "mat3 \<Rightarrow> int \<Rightarrow> vec3 list" where
  "bravaissup basis m =
     concat (map (\<lambda>ii.
       concat (map (\<lambda>jj.
         map (\<lambda>kk. vadd (vadd (smul (real ii) (row basis 0)) (smul (real jj) (row basis 1)))
                         (smul (real kk) (row basis 2)))
             [0..<nat m])
         [0..<nat m]))
       [0..<nat m])"

definition POS :: "nat \<Rightarrow> (nat \<times> nat \<times> nat) list" where
  "POS M =
     concat (map (\<lambda>ii.
       concat (map (\<lambda>jj. map (\<lambda>kk. (ii, jj, kk)) [jj + 1..<M + 1]) [ii + 1..<M + 1]))
       [1..<M + 1])"

subsection \<open>The scan over the three vertex orderings (lines 105-112)\<close>

text \<open>
  \<^verbatim>\<open>bb\<close> is a Python local of the whole function: it keeps the value of its last
  assignment, from an earlier triple if need be, and is unset (\<open>None\<close>) before the first
  one. \<^verbatim>\<open>v1\<close> and \<^verbatim>\<open>v2\<close> are assigned in every pass of the loop; the scan
  returns their last values. \<^verbatim>\<open>break\<close> ends the recursion.
\<close>

fun vertex_scan ::
  "mat3 \<Rightarrow> nat list \<Rightarrow> (vec3 \<times> vec3) option \<Rightarrow> nat option
     \<Rightarrow> pyerr + ((vec3 \<times> vec3) option \<times> nat option)" where
  "vertex_scan Setof3Atoms [] v1v2 bb = Inr (v1v2, bb)"
| "vertex_scan Setof3Atoms (aa # rest) v1v2 bb =
     (let v1 = vsub (row Setof3Atoms ((aa + 1) mod 3)) (row Setof3Atoms (aa mod 3));
          v2 = vsub (row Setof3Atoms ((aa + 2) mod 3)) (row Setof3Atoms (aa mod 3))
      in case ang v1 v2 of
           Inl e \<Rightarrow> Inl e
         | Inr T \<Rightarrow>
             if T \<le> pi / 2 then Inr (Some (v1, v2), Some aa)
             else vertex_scan Setof3Atoms rest (Some (v1, v2)) bb)"

subsection \<open>Sign canonicalization of the pair (lines 120-141)\<close>

text \<open>
  \<open>None\<close> is the \<^verbatim>\<open>continue\<close> of the final \<^verbatim>\<open>else\<close>, which Python attaches to
  the outermost \<^verbatim>\<open>if v1xv2[0] < 0 ... elif v1xv2[0]==0\<close>: it is taken when
  \<^verbatim>\<open>v1xv2[0] > 0\<close>. The result is the triple \<^verbatim>\<open>(v1, v2, v1xv2)\<close> after the step.
\<close>

definition sign_canon :: "vec3 \<Rightarrow> vec3 \<Rightarrow> vec3 \<Rightarrow> (vec3 \<times> vec3 \<times> vec3) option" where
  "sign_canon v1 v2 n =
     (if coord n 0 < 0 then Some (v2, v1, smul (- 1) n)
      else if coord n 0 = 0 then
        (if coord n 1 < 0 then Some (v2, v1, smul (- 1) n)
         else if coord n 1 = 0 then
           (if coord n 2 < 0 then Some (v2, v1, smul (- 1) n)
            else Some (v1, v2, n))
         else Some (v1, v2, n))
      else None)"

text \<open>
  Lines 115-141 on a pair: the cross product, the test for a degenerate pair and the
  sign step. \<open>None\<close> is \<^verbatim>\<open>continue\<close>.
\<close>

definition normalize_pair :: "vec3 \<times> vec3 \<Rightarrow> (vec3 \<times> vec3 \<times> vec3) option" where
  "normalize_pair p =
     (let n = cross (fst p) (snd p)
      in if norm3 n = 0 then None else sign_canon (fst p) (snd p) n)"

subsection \<open>Removal of excess atoms (lines 341-348)\<close>

fun keep_atom :: "atom4 \<Rightarrow> bool" where
  "keep_atom (XA, XB, XC, XL) =
     (XA \<ge> - 0.001 \<and> XA < 0.999 \<and> XB \<ge> - 0.001 \<and> XB < 0.999 \<and> XC \<ge> - 0.001 \<and> XC < 0.999)"

definition remove_excess_atoms :: "atom4 list \<Rightarrow> atom4 list" where
  "remove_excess_atoms NewAtoms = filter keep_atom NewAtoms"

subsection \<open>Deduplication by Miller index (lines 148-174)\<close>

text \<open>
  The locals of \<^verbatim>\<open>transformbasis\<close> that outlive one pass of the loop over the
  triples. \<^verbatim>\<open>twovects\<close>, \<^verbatim>\<open>v3\<close> and \<^verbatim>\<open>standardbasis\<close> are assigned only
  where a candidate is appended (lines 164-166). \<^verbatim>\<open>v1xv2check\<close> and
  \<^verbatim>\<open>millercheck\<close> are appended to together, so they have the same length.
\<close>

record locals =
  bb_var :: "nat option"
  twovects_var :: "(vec3 \<times> vec3) option"
  v3_var :: "vec3 option"
  standardbasis_var :: "mat3 option"
  v1xv2check :: "vec3 list"
  millercheck :: "miller list"
  ListofS3A2V :: "sobat list"

definition locals0 :: locals where
  "locals0 = \<lparr>bb_var = None, twovects_var = None, v3_var = None, standardbasis_var = None,
              v1xv2check = [], millercheck = [], ListofS3A2V = []\<rparr>"

text \<open>
  The loop of lines 151-157 over \<^verbatim>\<open>mm\<close>, on the state
  \<^verbatim>\<open>(v1xv2check, duplicate, replace)\<close>. The assignment
  \<^verbatim>\<open>millercheck[mm]=millerindex\<close> stores the value the test has just found there.
\<close>

fun duplicate_scan ::
  "miller \<Rightarrow> vec3 \<Rightarrow> miller list \<Rightarrow> nat list \<Rightarrow> vec3 list \<times> bool \<times> nat
     \<Rightarrow> vec3 list \<times> bool \<times> nat" where
  "duplicate_scan mi n mc [] acc = acc"
| "duplicate_scan mi n mc (mm # rest) (chk, duplicate, replace) =
     (if mc ! mm = mi then
        (if norm3 n < norm3 (chk ! mm)
         then duplicate_scan mi n mc rest (chk[mm := n], True, mm)
         else duplicate_scan mi n mc rest (chk, True, replace))
      else duplicate_scan mi n mc rest (chk, duplicate, replace))"

text \<open>
  Lines 148-174 with \<^verbatim>\<open>vector == 0\<close>, for the canonicalized pair \<open>(v1, v2)\<close> with
  cross product \<open>n\<close> and Miller index \<open>mi\<close>. The candidate built in the replacement
  branch (line 173) reads the locals \<^verbatim>\<open>twovects\<close>, \<^verbatim>\<open>v3\<close> and
  \<^verbatim>\<open>standardbasis\<close>.
\<close>

definition register_candidate ::
  "mat3 \<Rightarrow> vec3 \<Rightarrow> vec3 \<Rightarrow> vec3 \<Rightarrow> miller \<Rightarrow> locals \<Rightarrow> pyerr + locals" where
  "register_candidate pts3 v1 v2 n mi lo =
     (case duplicate_scan mi n (millercheck lo) [0..<length (millercheck lo)]
             (v1xv2check lo, False, 0) of
        (chk, duplicate, replace) \<Rightarrow>
          if \<not> duplicate then
            Inr (lo\<lparr>v1xv2check := chk @ [n],
                    millercheck := millercheck lo @ [mi],
                    twovects_var := Some (v1, v2),
                    v3_var := Some (0, 0, 0),
                    standardbasis_var := Some eye3,
                    ListofS3A2V := ListofS3A2V lo @
                      [\<lparr>threepts = pts3, twovects = (v1, v2), v3 = (0, 0, 0),
                        standardbasis = eye3, millerindex = mi,
                        atomcoords = [(0, 0, 0, 0)]\<rparr>]\<rparr>)
          else if replace \<noteq> 0 then
            (case (twovects_var lo, v3_var lo, standardbasis_var lo) of
               (Some tv, Some w, Some sb) \<Rightarrow>
                 if replace < length (ListofS3A2V lo) then
                   Inr (lo\<lparr>v1xv2check := chk,
                           ListofS3A2V := (ListofS3A2V lo)
                             [replace := \<lparr>threepts = pts3, twovects = tv, v3 = w,
                                          standardbasis = sb, millerindex = mi,
                                          atomcoords = [(0, 0, 0, 0)]\<rparr>]\<rparr>)
                 else Inl IndexError
             | _ \<Rightarrow> Inl NameError)
          else Inr (lo\<lparr>v1xv2check := chk\<rparr>))"

subsection \<open>One point triple (lines 103-174) and the loop over all of them\<close>

definition process_triple ::
  "'pg surftool \<Rightarrow> mat3 \<Rightarrow> 'pg \<Rightarrow> vec3 list \<Rightarrow> locals \<Rightarrow> nat \<times> nat \<times> nat \<Rightarrow> pyerr + locals" where
  "process_triple st basis pg pts lo ncr =
     (case ncr of (i, j, k) \<Rightarrow>
        (let Setof3Atoms = (pts ! (i - 1), pts ! (j - 1), pts ! (k - 1))
         in bind_err (vertex_scan Setof3Atoms [0, 1, 2] None (bb_var lo)) (\<lambda>(v1v2, bb).
              (case (v1v2, bb) of
                 (Some p, Some b) \<Rightarrow>
                   (let pts3 = (row Setof3Atoms (b mod 3), row Setof3Atoms ((b + 1) mod 3),
                                row Setof3Atoms ((b + 2) mod 3));
                        lo1 = lo\<lparr>bb_var := bb\<rparr>
                    in case normalize_pair p of
                         None \<Rightarrow> Inr lo1
                       | Some (v1, v2, n) \<Rightarrow>
                           bind_err (getmillerfrom2v st basis v1 v2) (\<lambda>m0.
                           bind_err (getsymfam st basis m0 pg) (\<lambda>C.
                             if C = [] then Inl IndexError
                             else register_candidate pts3 v1 v2 n (last C) lo1)))
               | _ \<Rightarrow> Inl NameError))))"

fun enumerate_loop ::
  "'pg surftool \<Rightarrow> mat3 \<Rightarrow> 'pg \<Rightarrow> vec3 list \<Rightarrow> locals \<Rightarrow> (nat \<times> nat \<times> nat) list
     \<Rightarrow> pyerr + locals" where
  "enumerate_loop st basis pg pts lo [] = Inr lo"
| "enumerate_loop st basis pg pts lo (ncr # rest) =
     bind_err (process_triple st basis pg pts lo ncr)
       (\<lambda>lo'. enumerate_loop st basis pg pts lo' rest)"

subsection \<open>The third vector (lines 188-218)\<close>

definition combos :: "(int \<times> int \<times> int) list" where
  "combos =
     concat (map (\<lambda>ii. concat (map (\<lambda>jj. map (\<lambda>kk. (ii, jj, kk)) [- 1..1]) [- 1..1])) [- 1..1])"

definition v3temp :: "mat3 \<Rightarrow> int \<times> int \<times> int \<Rightarrow> vec3" where
  "v3temp basis c =
     (case c of (ii, jj, kk) \<Rightarrow>
        vadd (vadd (smul (real_of_int ii) (row basis 0)) (smul (real_of_int jj) (row basis 1)))
             (smul (real_of_int kk) (row basis 2)))"

text \<open>
  The three nested loops over \<^verbatim>\<open>ii, jj, kk\<close> on the state \<^verbatim>\<open>(lastT, v3)\<close>.
  \<^verbatim>\<open>v3\<close> is the local of the whole function: the loops assign it only under the test
  of line 212.
\<close>

fun third_scan ::
  "mat3 \<Rightarrow> vec3 \<Rightarrow> vec3 \<Rightarrow> vec3 \<Rightarrow> (int \<times> int \<times> int) list \<Rightarrow> real \<times> vec3 option
     \<Rightarrow> pyerr + (real \<times> vec3 option)" where
  "third_scan basis S7 v1 v2 [] acc = Inr acc"
| "third_scan basis S7 v1 v2 (c # rest) (lastT, v3cur) =
     (if c = (0, 0, 0) then third_scan basis S7 v1 v2 rest (lastT, v3cur)
      else
        bind_err (ang S7 (v3temp basis c)) (\<lambda>T.
        bind_err (ang v1 (v3temp basis c)) (\<lambda>Tv1.
        bind_err (ang v2 (v3temp basis c)) (\<lambda>Tv2.
          if T \<le> pi / 2 \<and> Tv1 \<le> pi / 2 \<and> Tv2 \<le> pi / 2 \<and> Tv1 > 0 \<and> Tv2 > 0 then
            (if T < lastT then third_scan basis S7 v1 v2 rest (T, Some (v3temp basis c))
             else third_scan basis S7 v1 v2 rest (lastT, v3cur))
          else third_scan basis S7 v1 v2 rest (lastT, v3cur)))))"

text \<open>One pass of the loop over \<^verbatim>\<open>ss\<close>: the search, then \<^verbatim>\<open>ListofS3A2V[ss].v3=v3\<close>.\<close>

definition find_third :: "mat3 \<Rightarrow> sobat \<Rightarrow> vec3 option \<Rightarrow> pyerr + (sobat \<times> vec3 option)" where
  "find_third basis S v3cur =
     bind_err (third_scan basis (cross (fst (twovects S)) (snd (twovects S)))
                 (fst (twovects S)) (snd (twovects S)) combos (100, v3cur))
       (\<lambda>(lastT, v3new).
          case v3new of
            None \<Rightarrow> Inl NameError
          | Some w \<Rightarrow> Inr (S\<lparr>v3 := w\<rparr>, v3new))"

fun third_vector_loop :: "mat3 \<Rightarrow> sobat list \<Rightarrow> vec3 option \<Rightarrow> pyerr + sobat list" where
  "third_vector_loop basis [] v3cur = Inr []"
| "third_vector_loop basis (S # rest) v3cur =
     bind_err (find_third basis S v3cur) (\<lambda>(S', v3new).
     bind_err (third_vector_loop basis rest v3new) (\<lambda>rest'. Inr (S' # rest')))"

subsection \<open>Orthogonalization (lines 226-273)\<close>

text \<open>\<^verbatim>\<open>u/npl.norm(u)\<close>; numpy gives \<^verbatim>\<open>nan\<close> entries for the zero vector.\<close>

definition unit_vector :: "vec3 \<Rightarrow> pyerr + vec3" where
  "unit_vector u = (if norm3 u = 0 then Inl NotANumber else Inr (smul (1 / norm3 u) u))"

definition posbas :: "vec3 \<Rightarrow> vec3 \<Rightarrow> vec3 \<Rightarrow> vec3 \<Rightarrow> vec3 \<Rightarrow> vec3 \<Rightarrow> mat3" where
  "posbas f1hat f2hat f3hat b1 b2 b3 =
     ((sproj f1hat b1, 0, 0),
      (sproj f1hat b2, sproj f2hat b2, 0),
      (sproj f1hat b3, sproj f2hat b3, sproj f3hat b3))"

text \<open>
  The condition of line 248. Python's \<^verbatim>\<open>or\<close> evaluates its right operand only when
  the left one is false.
\<close>

definition frame_check :: "vec3 \<Rightarrow> vec3 \<Rightarrow> vec3 \<Rightarrow> pyerr + bool" where
  "frame_check f1hat f2hat f3hat =
     bind_err (ang f1hat f2hat) (\<lambda>A.
       if \<bar>A - pi / 2\<bar> \<ge> 0.0001 then Inr True
       else bind_err (ang f3hat f2hat) (\<lambda>B.
         if \<bar>B - pi / 2\<bar> \<ge> 0.0001 then Inr True
         else bind_err (ang f1hat f3hat) (\<lambda>C. Inr (\<bar>C - pi / 2\<bar> \<ge> 0.0001))))"

text \<open>
  Lines 248-273: the four checks on the frame \<^verbatim>\<open>f1hat, f2hat, f3hat\<close> and the
  vectors \<^verbatim>\<open>b1, b2, b3\<close>; the result is \<^verbatim>\<open>POSBAS\<close>.
\<close>

definition gs_validate ::
  "vec3 \<Rightarrow> vec3 \<Rightarrow> vec3 \<Rightarrow> vec3 \<Rightarrow> vec3 \<Rightarrow> vec3 \<Rightarrow> pyerr + mat3" where
  "gs_validate f1hat f2hat f3hat b1 b2 b3 =
     bind_err (frame_check f1hat f2hat f3hat) (\<lambda>bad.
       if bad then Inl (SystemError ''ERROR: Gram-schmidt Failure'')
       else if sproj f2hat b1 \<ge> 0.001 \<or> sproj f3hat b1 > 0.001 \<or> sproj f3hat b2 > 0.001
         then Inl (SystemError ''ERROR: Non-bottom diagonalized POSCAR matrix'')
       else
         (let POSBAS = posbas f1hat f2hat f3hat b1 b2 b3
          in bind_err (ang b1 b2) (\<lambda>a1.
             bind_err (ang (row POSBAS 0) (row POSBAS 1)) (\<lambda>p1.
             bind_err (ang b2 b3) (\<lambda>a2.
             bind_err (ang (row POSBAS 1) (row POSBAS 2)) (\<lambda>p2.
             bind_err (ang b1 b3) (\<lambda>a3.
             bind_err (ang (row POSBAS 0) (row POSBAS 2)) (\<lambda>p3.
               (let Ta = a1 - p1; Tb = a2 - p2; Tc = a3 - p3
                in if Ta \<ge> 0.001 \<or> Tb \<ge> 0.001 \<or> Tc \<ge> 0.001
                   then Inl (SystemError ''ERROR: Angles in POSCAR inconsistent with Basis!'')
                   else
                     (let La = norm3 b1 - norm3 (row POSBAS 0);
                          Lb = norm3 b2 - norm3 (row POSBAS 1);
                          Lc = norm3 b3 - norm3 (row POSBAS 2)
                      in if La > 0.0001 \<or> Lb \<ge> 0.0001 \<or> Lc \<ge> 0.0001
                         then Inl (SystemError
                                ''ERROR: Lengths in POSCAR inconsistent with Basis!'')
                         else Inr POSBAS))))))))))"

text \<open>
  Lines 230-239: the vectors \<^verbatim>\<open>u1, u2, u3\<close> and the frame
  \<^verbatim>\<open>f1hat, f2hat, f3hat\<close> of a candidate.
\<close>

definition gs_frame :: "sobat \<Rightarrow> pyerr + (vec3 \<times> vec3 \<times> vec3)" where
  "gs_frame S =
     (let v1 = fst (twovects S); v2 = snd (twovects S); w3 = v3 S; u1 = v1
      in bind_err (proj u1 v2) (\<lambda>p12.
         (let u2 = vsub v2 p12
          in bind_err (proj u1 w3) (\<lambda>p13.
             bind_err (proj u2 w3) (\<lambda>p23.
             (let u3 = vsub (vsub w3 p13) p23
              in bind_err (unit_vector u1) (\<lambda>f1hat.
                 bind_err (unit_vector u2) (\<lambda>f2hat.
                 bind_err (unit_vector u3) (\<lambda>f3hat.
                   Inr (f1hat, f2hat, f3hat))))))))))"

text \<open>
  One pass of the loop over \<^verbatim>\<open>tt\<close>: the frame, then the checks on it with
  \<^verbatim>\<open>b1, b2, b3 = v1, v2, v3\<close>, then \<^verbatim>\<open>S.standardbasis=POSBAS\<close>.
\<close>

definition gram_schmidt :: "sobat \<Rightarrow> pyerr + sobat" where
  "gram_schmidt S =
     bind_err (gs_frame S) (\<lambda>(f1hat, f2hat, f3hat).
     bind_err (gs_validate f1hat f2hat f3hat (fst (twovects S)) (snd (twovects S)) (v3 S))
       (\<lambda>POSBAS. Inr (S\<lparr>standardbasis := POSBAS\<rparr>)))"

text \<open>
  Following the words of the specification (section 4.5), for comparison with the checks of
  \<open>gs_validate\<close>: some invariant is violated beyond its tolerance, in either direction.
  The invariants are: the pairwise angles between \<open>f1, f2, f3\<close> equal \<open>\<pi>/2\<close>; the entries
  of \<open>B\<close> above the diagonal, \<^verbatim>\<open>sproj(f2,b1)\<close>, \<^verbatim>\<open>sproj(f3,b1)\<close> and
  \<^verbatim>\<open>sproj(f3,b2)\<close>, are zero; the pairwise angles between the rows of \<open>B\<close> match those
  between \<open>b1, b2, b3\<close>; the lengths of the rows of \<open>B\<close> match those of \<open>b1, b2, b3\<close>. The
  tolerances are those of lines 248-272: \<open>0.0001\<close> for the frame and the lengths, \<open>0.001\<close>
  for the entries and the angles between rows. \<open>spec_differ x y tol\<close> says that two
  angles, both defined, differ by at least \<open>tol\<close>.
\<close>

definition spec_differ :: "pyerr + real \<Rightarrow> pyerr + real \<Rightarrow> real \<Rightarrow> bool" where
  "spec_differ x y tol =
     (case x of Inl e \<Rightarrow> False
      | Inr a \<Rightarrow> (case y of Inl e \<Rightarrow> False | Inr b \<Rightarrow> \<bar>a - b\<bar> \<ge> tol))"

definition spec_invariant_violated ::
  "vec3 \<Rightarrow> vec3 \<Rightarrow> vec3 \<Rightarrow> vec3 \<Rightarrow> vec3 \<Rightarrow> vec3 \<Rightarrow> bool" where
  "spec_invariant_violated f1 f2 f3 b1 b2 b3 =
     (let B = posbas f1 f2 f3 b1 b2 b3
      in spec_differ (ang f1 f2) (Inr (pi / 2)) 0.0001
         \<or> spec_differ (ang f3 f2) (Inr (pi / 2)) 0.0001
         \<or> spec_differ (ang f1 f3) (Inr (pi / 2)) 0.0001
         \<or> \<bar>sproj f2 b1\<bar> \<ge> 0.001 \<or> \<bar>sproj f3 b1\<bar> \<ge> 0.001 \<or> \<bar>sproj f3 b2\<bar> \<ge> 0.001
         \<or> spec_differ (ang b1 b2) (ang (row B 0) (row B 1)) 0.001
         \<or> spec_differ (ang b2 b3) (ang (row B 1) (row B 2)) 0.001
         \<or> spec_differ (ang b1 b3) (ang (row B 0) (row B 2)) 0.001
         \<or> \<bar>norm3 b1 - norm3 (row B 0)\<bar> \<ge> 0.0001
         \<or> \<bar>norm3 b2 - norm3 (row B 1)\<bar> \<ge> 0.0001
         \<or> \<bar>norm3 b3 - norm3 (row B 2)\<bar> \<ge> 0.0001)"

text \<open>A \<^verbatim>\<open>for\<close> loop over the candidates that stops at the first exception.\<close>

fun for_each :: "('a \<Rightarrow> pyerr + 'b) \<Rightarrow> 'a list \<Rightarrow> pyerr + 'b list" where
  "for_each f [] = Inr []"
| "for_each f (x # xs) =
     bind_err (f x) (\<lambda>y. bind_err (for_each f xs) (\<lambda>ys. Inr (y # ys)))"

subsection \<open>Coordinate remapping (lines 278-362)\<close>

definition det3 :: "mat3 \<Rightarrow> real" where
  "det3 M = dot (row M 0) (cross (row M 1) (row M 2))"

fun transpose3 :: "mat3 \<Rightarrow> mat3" where
  "transpose3 ((a, b, c), (d, e, f), (g, h, i)) = ((a, d, g), (b, e, h), (c, f, i))"

definition mat_vec :: "mat3 \<Rightarrow> vec3 \<Rightarrow> vec3" where
  "mat_vec M v = (dot (row M 0) v, dot (row M 1) v, dot (row M 2) v)"

definition mat_mul :: "mat3 \<Rightarrow> mat3 \<Rightarrow> mat3" where
  "mat_mul A B =
     (mat_vec (transpose3 B) (row A 0), mat_vec (transpose3 B) (row A 1),
      mat_vec (transpose3 B) (row A 2))"

text \<open>
  \<^verbatim>\<open>npl.inv\<close> of a 3x3 matrix with rows \<open>r0, r1, r2\<close>: the columns of the inverse are
  \<open>r1\<times>r2\<close>, \<open>r2\<times>r0\<close> and \<open>r0\<times>r1\<close> over the determinant; a singular matrix raises
  \<^verbatim>\<open>LinAlgError\<close>.
\<close>

definition inv3 :: "mat3 \<Rightarrow> pyerr + mat3" where
  "inv3 M =
     (if det3 M = 0 then Inl LinAlgError
      else Inr (transpose3
                 (smul (1 / det3 M) (cross (row M 1) (row M 2)),
                  smul (1 / det3 M) (cross (row M 2) (row M 0)),
                  smul (1 / det3 M) (cross (row M 0) (row M 1)))))"

text \<open>
  Python 2's \<^verbatim>\<open>round\<close> rounds a half away from zero. \<^verbatim>\<open>Sxyz\<close> is an integer
  array; its row 0 holds the maxima and its row 1 the minima (lines 299-307).
\<close>

definition py_round :: "real \<Rightarrow> int" where
  "py_round x = (if x \<ge> 0 then \<lfloor>x + 1 / 2\<rfloor> else \<lceil>x - 1 / 2\<rceil>)"

definition bound_axis :: "vec3 \<Rightarrow> nat \<Rightarrow> int list \<times> int list \<Rightarrow> int list \<times> int list" where
  "bound_axis M aa Sxyz =
     (case Sxyz of (hi, lo) \<Rightarrow>
        (let hi' = (if coord M aa > real_of_int (hi ! aa)
                    then hi[aa := py_round (coord M aa)] else hi);
             lo' = (if coord M aa < real_of_int (lo ! aa)
                    then lo[aa := py_round (coord M aa)] else lo)
         in (hi', lo')))"

definition bounding_box :: "vec3 \<Rightarrow> vec3 \<Rightarrow> vec3 \<Rightarrow> int list \<times> int list" where
  "bounding_box millerv1 millerv2 millerv3 =
     fold (\<lambda>(xx, yy, zz) Sxyz.
             fold (bound_axis (vadd (vadd (smul (real xx) millerv1) (smul (real yy) millerv2))
                                    (smul (real zz) millerv3)))
                  [0, 1, 2] Sxyz)
          [(xx, yy, zz). xx \<leftarrow> [0..<2], yy \<leftarrow> [0..<2], zz \<leftarrow> [0..<2 :: nat]]
          ([0, 0, 0], [0, 0, 0])"

text \<open>Lines 309-321: every atom, labelled with its index, at every offset of the box.\<close>

definition replicate_atoms :: "vec3 list \<Rightarrow> int list \<times> int list \<Rightarrow> atom4 list" where
  "replicate_atoms atoms Sxyz =
     (case Sxyz of (hi, lo) \<Rightarrow>
        [(coord (atoms ! ii) 0 + real_of_int x, coord (atoms ! ii) 1 + real_of_int y,
          coord (atoms ! ii) 2 + real_of_int z, real ii).
           ii \<leftarrow> [0..<length atoms], x \<leftarrow> [lo ! 0..hi ! 0], y \<leftarrow> [lo ! 1..hi ! 1],
           z \<leftarrow> [lo ! 2..hi ! 2]])"

text \<open>
  Lines 328-334. \<^verbatim>\<open>C\<close> is extended by a zero column and the row \<^verbatim>\<open>[0,0,0,1]\<close>, so
  the inverse of its transpose is the inverse of the transpose of \<^verbatim>\<open>C\<close> on the three
  coordinates and leaves the label as it is.
\<close>

fun to_new_basis :: "mat3 \<Rightarrow> atom4 \<Rightarrow> atom4" where
  "to_new_basis Cti (x, y, z, l) =
     (coord (mat_vec Cti (x, y, z)) 0, coord (mat_vec Cti (x, y, z)) 1,
      coord (mat_vec Cti (x, y, z)) 2, l)"

text \<open>
  Lines 355-359. \<^verbatim>\<open>RPA\<close> and \<^verbatim>\<open>Ra\<close> are Python 2 integers (two \<^verbatim>\<open>len\<close>s), so
  \<^verbatim>\<open>RPA/Ra\<close> is the floor division of integers.
\<close>

definition volume_check :: "nat \<Rightarrow> nat \<Rightarrow> real \<Rightarrow> pyerr + unit" where
  "volume_check RPA Ra POSBASVOL =
     (if Ra = 0 then Inl ZeroDivisionError
      else if \<bar>real (RPA div Ra) - POSBASVOL\<bar> \<ge> 0.01
        then Inl (SystemError ''ERROR: Number of atoms inconsistent with the size of basis!'')
      else Inr ())"

text \<open>One pass of the loop over \<^verbatim>\<open>mm\<close> (lines 278-362); the printing is left out.\<close>

definition remap :: "mat3 \<Rightarrow> vec3 list \<Rightarrow> real \<Rightarrow> sobat \<Rightarrow> pyerr + sobat" where
  "remap basis atoms primvol S =
     (let Ra = length atoms;
          NewB = (fst (twovects S), snd (twovects S), v3 S)
      in bind_err (inv3 basis) (\<lambda>binv.
         bind_err (inv3 (transpose3 basis)) (\<lambda>btinv.
         (let C = mat_mul NewB binv;
              Sxyz = bounding_box (mat_vec btinv (row NewB 0)) (mat_vec btinv (row NewB 1))
                       (mat_vec btinv (row NewB 2));
              NewAtomsList = replicate_atoms atoms Sxyz
          in bind_err (inv3 (transpose3 C)) (\<lambda>Cti.
             (let NewAtoms = map (to_new_basis Cti) NewAtomsList;
                  AtomicCoords = remove_excess_atoms NewAtoms;
                  POSBASVOL = newbasisvolume S / primvol;
                  RPA = length AtomicCoords
              in bind_err (volume_check RPA Ra POSBASVOL) (\<lambda>u.
                   Inr (S\<lparr>atomcoords := AtomicCoords\<rparr>))))))))"

subsection \<open>\<^verbatim>\<open>Vaspsurface.transformbasis\<close>\<close>

text \<open>
  The whole function, up to the final value of its local \<^verbatim>\<open>ListofS3A2V\<close>.
  \<^verbatim>\<open>len(maxindex)\<close> raises \<^verbatim>\<open>TypeError\<close> for a number. With three entries the
  function calls \<^verbatim>\<open>get2vectsinplane\<close> and then raises at
  \<^verbatim>\<open>np.array[[0,0,0,0]]\<close> (line 67), which subscripts a function. With any other
  length but one, \<^verbatim>\<open>bravaissup\<close> is unset at line 89.
\<close>

definition transformbasis_locals ::
  "'pg surftool \<Rightarrow> mat3 \<Rightarrow> vec3 list \<Rightarrow> pyobj \<Rightarrow> 'pg \<Rightarrow> pyerr + sobat list" where
  "transformbasis_locals st basis atoms maxindex pg =
     (case maxindex of
        PyInt n \<Rightarrow> Inl TypeError
      | NpArray xs \<Rightarrow>
          if length xs = 1 then
            (let primvol = \<bar>det3 basis\<bar>;
                 pts = bravaissup basis (xs ! 0)
             in bind_err (enumerate_loop st basis pg pts locals0 (POS (length pts))) (\<lambda>lo.
                bind_err (third_vector_loop basis (ListofS3A2V lo) (v3_var lo)) (\<lambda>L1.
                bind_err (for_each gram_schmidt L1) (\<lambda>L2.
                  for_each (remap basis atoms primvol) L2))))
          else if length xs = 3 then
            bind_err (get2vectsinplane st basis xs) (\<lambda>r. Inl TypeError)
          else Inl NameError)"

text \<open>
  The value of the call: the body has no \<^verbatim>\<open>return\<close> with a value, so a call that
  does not raise evaluates to \<^verbatim>\<open>None\<close>.
\<close>

definition transformbasis ::
  "'pg surftool \<Rightarrow> mat3 \<Rightarrow> vec3 list \<Rightarrow> pyobj \<Rightarrow> 'pg \<Rightarrow> pyerr + sobat pyvalue" where
  "transformbasis st basis atoms maxindex pg =
     bind_err (transformbasis_locals st basis atoms maxindex pg) (\<lambda>L. Inr PyNone)"

section \<open>Properties\<close>

subsection \<open>Vectors and angles\<close>

lemma dot_self_nonneg: "0 \<le> dot v v"
  by (cases v) simp

lemma dot_self_eq_0_iff: "dot v v = 0 \<longleftrightarrow> v = (0, 0, 0)"
proof (cases v)
  case (fields a b c)
  have "a * a + b * b + c * c = 0 \<longleftrightarrow> a = 0 \<and> b = 0 \<and> c = 0"
    by (smt (verit) mult_eq_0_iff zero_le_square add_nonneg_eq_0_iff add_nonneg_nonneg)
  then show ?thesis using fields by simp
qed

lemma norm3_nonneg: "0 \<le> norm3 v"
  by (simp add: norm3_def dot_self_nonneg)

lemma norm3_eq_0_iff: "norm3 v = 0 \<longleftrightarrow> v = (0, 0, 0)"
  by (simp add: norm3_def dot_self_eq_0_iff)

lemma norm3_pos: "v \<noteq> (0, 0, 0) \<Longrightarrow> 0 < norm3 v"
  using norm3_nonneg [of v] norm3_eq_0_iff [of v] by linarith

lemma lagrange3: "dot u u * dot v v = (dot u v)\<^sup>2 + dot (cross u v) (cross u v)"
  by (cases u; cases v) (simp add: power2_eq_square algebra_simps)

lemma norm3_mult: "norm3 u * norm3 v = sqrt (dot u u * dot v v)"
  by (simp add: norm3_def real_sqrt_mult)

lemma cauchy_schwarz3: "\<bar>dot u v\<bar> \<le> norm3 u * norm3 v"
proof -
  have "(dot u v)\<^sup>2 \<le> dot u u * dot v v"
    using lagrange3 [of u v] dot_self_nonneg [of "cross u v"] by linarith
  then have "sqrt ((dot u v)\<^sup>2) \<le> sqrt (dot u u * dot v v)"
    by (rule real_sqrt_le_mono)
  then show ?thesis by (simp add: norm3_mult)
qed

lemma cosine_bounded:
  assumes "u \<noteq> (0, 0, 0)" "v \<noteq> (0, 0, 0)"
  shows "\<bar>dot u v / (norm3 u * norm3 v)\<bar> \<le> 1"
proof -
  have pos: "0 < norm3 u * norm3 v" using assms by (simp add: norm3_pos)
  then have "\<bar>dot u v / (norm3 u * norm3 v)\<bar> = \<bar>dot u v\<bar> / (norm3 u * norm3 v)"
    by (simp only: abs_divide abs_of_pos)
  also have "\<dots> \<le> 1"
    using pos cauchy_schwarz3 [of u v] by (simp only: pos_divide_le_eq mult_1)
  finally show ?thesis .
qed

lemma ang_nonzero:
  assumes "u \<noteq> (0, 0, 0)" "v \<noteq> (0, 0, 0)"
  shows "ang u v = Inr (arccos (dot u v / (norm3 u * norm3 v)))"
  using assms by (simp add: ang_def norm3_eq_0_iff)

lemma ang_nonneg:
  assumes "u \<noteq> (0, 0, 0)" "w \<noteq> (0, 0, 0)" "ang u w = Inr T"
  shows "0 \<le> T"
proof -
  have T: "T = arccos (dot u w / (norm3 u * norm3 w))"
    using assms ang_nonzero [of u w] by simp
  have "- 1 \<le> dot u w / (norm3 u * norm3 w)" "dot u w / (norm3 u * norm3 w) \<le> 1"
    using cosine_bounded [OF assms(1,2)] by linarith+
  then show ?thesis unfolding T by (rule arccos_lbound)
qed

lemma arccos_le_half_pi_iff:
  assumes "\<bar>x\<bar> \<le> 1"
  shows "arccos x \<le> pi / 2 \<longleftrightarrow> 0 \<le> x"
  using arccos_le_mono [of x 0] assms by (simp add: arccos_0)

lemma ang_le_half_pi_iff:
  assumes "u \<noteq> (0, 0, 0)" "v \<noteq> (0, 0, 0)" "ang u v = Inr T"
  shows "T \<le> pi / 2 \<longleftrightarrow> 0 \<le> dot u v"
proof -
  have pos: "0 < norm3 u * norm3 v" using assms by (simp add: norm3_pos)
  have T: "T = arccos (dot u v / (norm3 u * norm3 v))"
    using assms ang_nonzero [of u v] by simp
  have "T \<le> pi / 2 \<longleftrightarrow> 0 \<le> dot u v / (norm3 u * norm3 v)"
    unfolding T by (rule arccos_le_half_pi_iff) (rule cosine_bounded [OF assms(1,2)])
  also have "\<dots> \<longleftrightarrow> 0 \<le> dot u v" using pos by (simp add: zero_le_divide_iff)
  finally show ?thesis .
qed

lemma parallel_dot:
  assumes "cross u w = (0, 0, 0)" "0 < dot u w"
  shows "dot u w = norm3 u * norm3 w"
proof -
  have "dot u u * dot w w = (dot u w)\<^sup>2"
    using lagrange3 [of u w] assms(1) by simp
  then have "norm3 u * norm3 w = sqrt ((dot u w)\<^sup>2)"
    by (simp add: norm3_mult)
  then show ?thesis using assms(2) by simp
qed

lemma ang_parallel:
  assumes "u \<noteq> (0, 0, 0)" "w \<noteq> (0, 0, 0)" "cross u w = (0, 0, 0)" "0 < dot u w"
  shows "ang u w = Inr 0"
proof -
  have "norm3 u * norm3 w \<noteq> 0" using assms by (simp add: norm3_eq_0_iff)
  then have "dot u w / (norm3 u * norm3 w) = 1"
    unfolding parallel_dot [OF assms(3,4)] by (rule divide_self)
  then show ?thesis by (simp only: ang_nonzero [OF assms(1,2)] arccos_1)
qed

lemma vsub_eq_0_iff: "vsub p q = (0, 0, 0) \<longleftrightarrow> p = q"
  by (cases p; cases q) simp

lemma triangle_dots:
  "dot (vsub p1 p0) (vsub p2 p0) + dot (vsub p2 p1) (vsub p0 p1) = dot (vsub p1 p0) (vsub p1 p0)"
  by (cases p0; cases p1; cases p2) (simp add: algebra_simps)

lemma bind_err_Inr:
  "bind_err m f = Inr y \<longleftrightarrow> (\<exists>x. m = Inr x \<and> f x = Inr y)"
  by (cases m) (simp_all add: bind_err_def)












subsection \<open>\<^verbatim>\<open>Deformation.from_index_amount\<close>\<close>

lemma identity_3: "identity 3 = [[1, 0, 0], [0, 1, 0], [0, 0, 1]]"
  by (simp add: identity_def upt_rec numeral_3_eq_3)

lemma identity_entry:
  assumes "k < 3" "l < 3"
  shows "identity 3 ! k ! l = (if k = l then 1 else 0)"
  using assms by (simp add: identity_def)

text \<open>A component \<open>r\<close> between \<open>-3\<close> and \<open>2\<close> names the row \<open>r\<close>, or \<open>r + 3\<close> when it is negative.\<close>

lemma np_index_3:
  assumes "- 3 \<le> r" "r < 3"
  shows "np_index 3 r = Inr (nat (if 0 \<le> r then r else r + 3))"
  using assms by (simp add: np_index_def)

lemma update_identity_entry:
  assumes "i < 3" "j < 3"
  shows "length ((identity 3)[i := (identity 3 ! i)[j := identity 3 ! i ! j + a]]) = 3
       \<and> (\<forall>k<3. length ((identity 3)[i := (identity 3 ! i)[j := identity 3 ! i ! j + a]] ! k) = 3)
       \<and> (\<forall>k<3. \<forall>l<3.
            (identity 3)[i := (identity 3 ! i)[j := identity 3 ! i ! j + a]] ! k ! l
              = (if k = l then 1 else 0) + (if k = i \<and> l = j then a else 0))"
proof -
  have len: "length (identity 3) = 3"
    and rows: "\<And>k. k < 3 \<Longrightarrow> length (identity 3 ! k) = 3"
    by (simp_all add: identity_def)
  show ?thesis using assms len rows
    by (auto simp: nth_list_update identity_entry)
qed

text \<open>Outside the array, indexing raises.\<close>

lemma from_index_amount_out_of_range:
  assumes "r < - 3 \<or> 3 \<le> r \<or> c < - 3 \<or> 3 \<le> c"
  shows "from_index_amount (r, c) a = Inl IndexError"
  using assms by (auto simp: from_index_amount_def np_index_def split: sum.splits)

text \<open>
  Claim C10. For every position \<open>(r, c)\<close> of a 3x3 array (each component between \<open>-3\<close>
  and \<open>2\<close>, a negative one counting from the end, so that \<open>r\<close> names the row \<open>r\<close> or
  \<open>r + 3\<close>) and every amount \<open>a\<close>, \<^verbatim>\<open>from_index_amount\<close> returns a 3x3 array: its
  entry in row \<open>k\<close> and column \<open>l\<close> is the entry of the identity, \<open>1\<close> on the diagonal
  and \<open>0\<close> elsewhere, plus \<open>a\<close> at the position \<open>(r, c)\<close> and plus nothing at every
  other position.
\<close>

theorem from_index_amount_entry:
  assumes "- 3 \<le> r" "r < 3" "- 3 \<le> c" "c < 3"
  shows "\<exists>F. from_index_amount (r, c) a = Inr F
           \<and> length F = 3 \<and> (\<forall>k<3. length (F ! k) = 3)
           \<and> (\<forall>k<3. \<forall>l<3. F ! k ! l
                 = (if k = l then 1 else 0)
                   + (if int k = (if 0 \<le> r then r else r + 3)
                         \<and> int l = (if 0 \<le> c then c else c + 3) then a else 0))"
proof -
  let ?i = "nat (if 0 \<le> r then r else r + 3)" and ?j = "nat (if 0 \<le> c then c else c + 3)"
  have i: "?i < 3" "np_index 3 r = Inr ?i" using np_index_3 [OF assms(1,2)] assms by auto
  have j: "?j < 3" "np_index 3 c = Inr ?j" using np_index_3 [OF assms(3,4)] assms by auto
  have eqs: "\<And>k. (int k = (if 0 \<le> r then r else r + 3)) = (k = ?i)"
    "\<And>l. (int l = (if 0 \<le> c then c else c + 3)) = (l = ?j)"
    using assms by auto
  have F: "from_index_amount (r, c) a
             = Inr ((identity 3)[?i := (identity 3 ! ?i)[?j := identity 3 ! ?i ! ?j + a]])"
    using i j by (simp add: from_index_amount_def Let_def)
  show ?thesis unfolding eqs F using update_identity_entry [OF i(1) j(1), of a] by blast
qed

theorem from_index_amount_entry_witness:
  "from_index_amount (0, - 1) (1 / 2) = Inr [[1, 0, 1 / 2], [0, 1, 0], [0, 0, 1]]
   \<and> (\<exists>F. from_index_amount (0, - 1) (1 / 2) = Inr F
           \<and> length F = 3 \<and> (\<forall>k<3. length (F ! k) = 3)
           \<and> (\<forall>k<3. \<forall>l<3. F ! k ! l
                 = (if k = l then 1 else 0)
                   + (if int k = (if 0 \<le> (0 :: int) then 0 else 0 + 3)
                         \<and> int l = (if 0 \<le> (- 1 :: int) then - 1 else - 1 + 3) then 1 / 2 else 0)))"
proof
  show "from_index_amount (0, - 1) (1 / 2) = Inr [[1, 0, 1 / 2], [0, 1, 0], [0, 0, 1]]"
    by (simp add: from_index_amount_def np_index_def identity_3)
  show "\<exists>F. from_index_amount (0, - 1) (1 / 2) = Inr F
           \<and> length F = 3 \<and> (\<forall>k<3. length (F ! k) = 3)
           \<and> (\<forall>k<3. \<forall>l<3. F ! k ! l
                 = (if k = l then 1 else 0)
                   + (if int k = (if 0 \<le> (0 :: int) then 0 else 0 + 3)
                         \<and> int l = (if 0 \<le> (- 1 :: int) then - 1 else - 1 + 3) then 1 / 2 else 0))"
    by (rule from_index_amount_entry) simp_all
qed

subsection \<open>The vertex scan\<close>

lemma scan_step_found:
  assumes "v1 = vsub (row S ((aa + 1) mod 3)) (row S (aa mod 3))"
    and "v2 = vsub (row S ((aa + 2) mod 3)) (row S (aa mod 3))"
    and "v1 \<noteq> (0, 0, 0)" "v2 \<noteq> (0, 0, 0)" "0 \<le> dot v1 v2"
  shows "vertex_scan S (aa # rest) v1v2 bb = Inr (Some (v1, v2), Some aa)"
proof -
  obtain T where T: "ang v1 v2 = Inr T" using ang_nonzero [OF assms(3,4)] by blast
  then have "T \<le> pi / 2" using ang_le_half_pi_iff [OF assms(3,4) T] assms(5) by simp
  then show ?thesis using T assms(1,2) by (simp add: Let_def)
qed

lemma scan_first_vertex:
  assumes "vsub (row S 1) (row S 0) \<noteq> (0, 0, 0)" "vsub (row S 2) (row S 0) \<noteq> (0, 0, 0)"
    and "0 \<le> dot (vsub (row S 1) (row S 0)) (vsub (row S 2) (row S 0))"
  shows "vertex_scan S (0 # rest) v1v2 bb
           = Inr (Some (vsub (row S 1) (row S 0), vsub (row S 2) (row S 0)), Some 0)"
  using assms by (intro scan_step_found) (simp_all add: numeral_2_eq_2)

lemma scan_step_continue:
  assumes "v1 = vsub (row S ((aa + 1) mod 3)) (row S (aa mod 3))"
    and "v2 = vsub (row S ((aa + 2) mod 3)) (row S (aa mod 3))"
    and "v1 \<noteq> (0, 0, 0)" "v2 \<noteq> (0, 0, 0)" "dot v1 v2 < 0"
  shows "vertex_scan S (aa # rest) v1v2 bb = vertex_scan S rest (Some (v1, v2)) bb"
proof -
  obtain T where T: "ang v1 v2 = Inr T" using ang_nonzero [OF assms(3,4)] by blast
  then have "\<not> T \<le> pi / 2" using ang_le_half_pi_iff [OF assms(3,4) T] assms(5) by simp
  then show ?thesis using T assms(1,2) by (simp add: Let_def)
qed

lemma scan_second_vertex:
  assumes "vsub (row S 1) (row S 0) \<noteq> (0, 0, 0)" "vsub (row S 2) (row S 0) \<noteq> (0, 0, 0)"
    and "dot (vsub (row S 1) (row S 0)) (vsub (row S 2) (row S 0)) < 0"
    and "vsub (row S 2) (row S 1) \<noteq> (0, 0, 0)" "vsub (row S 0) (row S 1) \<noteq> (0, 0, 0)"
    and "0 \<le> dot (vsub (row S 2) (row S 1)) (vsub (row S 0) (row S 1))"
  shows "vertex_scan S (0 # Suc 0 # rest) v1v2 bb
           = Inr (Some (vsub (row S 2) (row S 1), vsub (row S 0) (row S 1)), Some (Suc 0))"
proof -
  have m0: "(0 + 1) mod 3 = (1 :: nat)" "(0 + 2) mod 3 = (2 :: nat)" "0 mod 3 = (0 :: nat)"
    by simp_all
  have m1: "(Suc 0 + 1) mod 3 = (2 :: nat)" "(Suc 0 + 2) mod 3 = (0 :: nat)"
    "Suc 0 mod 3 = (1 :: nat)"
    by simp_all
  have "vertex_scan S (0 # Suc 0 # rest) v1v2 bb
          = vertex_scan S (Suc 0 # rest)
              (Some (vsub (row S 1) (row S 0), vsub (row S 2) (row S 0))) bb"
    using assms(1-3) by (intro scan_step_continue; simp only: m0)
  also have "\<dots> = Inr (Some (vsub (row S 2) (row S 1), vsub (row S 0) (row S 1)), Some (Suc 0))"
    using assms(4-6) by (intro scan_step_found; simp only: m1)
  finally show ?thesis .
qed

lemma POS_8:
  "POS 8 =
   [(1,2,3),(1,2,4),(1,2,5),(1,2,6),(1,2,7),(1,2,8),(1,3,4),(1,3,5),(1,3,6),(1,3,7),(1,3,8),
    (1,4,5),(1,4,6),(1,4,7),(1,4,8),(1,5,6),(1,5,7),(1,5,8),(1,6,7),(1,6,8),(1,7,8),
    (2,3,4),(2,3,5),(2,3,6),(2,3,7),(2,3,8),(2,4,5),(2,4,6),(2,4,7),(2,4,8),(2,5,6),(2,5,7),
    (2,5,8),(2,6,7),(2,6,8),(2,7,8),(3,4,5),(3,4,6),(3,4,7),(3,4,8),(3,5,6),(3,5,7),(3,5,8),
    (3,6,7),(3,6,8),(3,7,8),(4,5,6),(4,5,7),(4,5,8),(4,6,7),(4,6,8),(4,7,8),(5,6,7),(5,6,8),
    (5,7,8),(6,7,8)]"
  by (simp add: POS_def upt_rec)

text \<open>
  Claim C9. For three distinct points the scan over the three vertex orderings stops at a
  vertex \<open>aa\<close> whose two edge vectors subtend an angle of at most \<open>\<pi>/2\<close>: it raises no
  exception and returns with \<^verbatim>\<open>bb\<close> set to that vertex, whatever \<^verbatim>\<open>bb\<close> was
  before.
\<close>

theorem vertex_scan_finds_vertex:
  assumes "p0 \<noteq> p1" "p1 \<noteq> p2" "p0 \<noteq> p2"
  shows "\<exists>aa v1 v2 T. vertex_scan (p0, p1, p2) [0, 1, 2] None bb = Inr (Some (v1, v2), Some aa)
           \<and> aa < 3
           \<and> v1 = vsub (row (p0, p1, p2) ((aa + 1) mod 3)) (row (p0, p1, p2) (aa mod 3))
           \<and> v2 = vsub (row (p0, p1, p2) ((aa + 2) mod 3)) (row (p0, p1, p2) (aa mod 3))
           \<and> ang v1 v2 = Inr T \<and> T \<le> pi / 2"
proof -
  have nz: "vsub p1 p0 \<noteq> (0, 0, 0)" "vsub p2 p0 \<noteq> (0, 0, 0)"
           "vsub p2 p1 \<noteq> (0, 0, 0)" "vsub p0 p1 \<noteq> (0, 0, 0)"
    using assms by (auto simp: vsub_eq_0_iff)
  obtain T0 where T0: "ang (vsub p1 p0) (vsub p2 p0) = Inr T0"
    using ang_nonzero [OF nz(1,2)] by blast
  obtain T1 where T1: "ang (vsub p2 p1) (vsub p0 p1) = Inr T1"
    using ang_nonzero [OF nz(3,4)] by blast
  show ?thesis
  proof (cases "T0 \<le> pi / 2")
    case True
    then have "vertex_scan (p0, p1, p2) [0, 1, 2] None bb
                 = Inr (Some (vsub p1 p0, vsub p2 p0), Some 0)"
      using T0 by simp
    then show ?thesis using T0 True by auto
  next
    case False
    then have "dot (vsub p1 p0) (vsub p2 p0) < 0"
      using ang_le_half_pi_iff [OF nz(1,2) T0] by simp
    moreover have "0 < dot (vsub p1 p0) (vsub p1 p0)"
      using dot_self_nonneg [of "vsub p1 p0"] dot_self_eq_0_iff [of "vsub p1 p0"] nz(1)
      by linarith
    ultimately have "0 \<le> dot (vsub p2 p1) (vsub p0 p1)"
      using triangle_dots [of p1 p0 p2] by linarith
    then have le: "T1 \<le> pi / 2"
      using ang_le_half_pi_iff [OF nz(3,4) T1] by simp
    then have "vertex_scan (p0, p1, p2) [0, 1, 2] None bb
                 = Inr (Some (vsub p2 p1, vsub p0 p1), Some 1)"
      using T0 T1 False by simp
    then show ?thesis using T1 le by auto
  qed
qed

theorem vertex_scan_finds_vertex_witness:
  "((0 :: real, 0 :: real, 0 :: real) \<noteq> (1, 0, 0) \<and> (1 :: real, 0 :: real, 0 :: real) \<noteq> (- 1, 1, 0)
     \<and> (0 :: real, 0 :: real, 0 :: real) \<noteq> (- 1, 1, 0))
   \<and> (\<exists>aa v1 v2 T.
         vertex_scan ((0, 0, 0), (1, 0, 0), (- 1, 1, 0)) [0, 1, 2] None None
           = Inr (Some (v1, v2), Some aa)
         \<and> aa < 3
         \<and> v1 = vsub (row ((0, 0, 0), (1, 0, 0), (- 1, 1, 0)) ((aa + 1) mod 3))
                  (row ((0, 0, 0), (1, 0, 0), (- 1, 1, 0)) (aa mod 3))
         \<and> v2 = vsub (row ((0, 0, 0), (1, 0, 0), (- 1, 1, 0)) ((aa + 2) mod 3))
                  (row ((0, 0, 0), (1, 0, 0), (- 1, 1, 0)) (aa mod 3))
         \<and> ang v1 v2 = Inr T \<and> T \<le> pi / 2)"
proof
  show "(0 :: real, 0 :: real, 0 :: real) \<noteq> (1, 0, 0) \<and> (1 :: real, 0 :: real, 0 :: real) \<noteq> (- 1, 1, 0)
     \<and> (0 :: real, 0 :: real, 0 :: real) \<noteq> (- 1, 1, 0)"
    by simp
  show "\<exists>aa v1 v2 T.
         vertex_scan ((0, 0, 0), (1, 0, 0), (- 1, 1, 0)) [0, 1, 2] None None
           = Inr (Some (v1, v2), Some aa)
         \<and> aa < 3
         \<and> v1 = vsub (row ((0, 0, 0), (1, 0, 0), (- 1, 1, 0)) ((aa + 1) mod 3))
                  (row ((0, 0, 0), (1, 0, 0), (- 1, 1, 0)) (aa mod 3))
         \<and> v2 = vsub (row ((0, 0, 0), (1, 0, 0), (- 1, 1, 0)) ((aa + 2) mod 3))
                  (row ((0, 0, 0), (1, 0, 0), (- 1, 1, 0)) (aa mod 3))
         \<and> ang v1 v2 = Inr T \<and> T \<le> pi / 2"
    by (rule vertex_scan_finds_vertex) simp_all
qed

subsection \<open>The sign step\<close>

lemma sign_canon_None_iff: "sign_canon v1 v2 n = None \<longleftrightarrow> coord n 0 > 0"
  by (cases v1; cases v2; cases n) (auto simp: sign_canon_def)

lemma bravaissup_eye3_2:
  "bravaissup eye3 2 =
     [(0, 0, 0), (0, 0, 1), (0, 1, 0), (0, 1, 1), (1, 0, 0), (1, 0, 1), (1, 1, 0), (1, 1, 1)]"
  by (simp add: bravaissup_def eye3_def upt_rec)

text \<open>
  Claim C1 (fails on the code). The pair \<open>v1 = (0,1,0)\<close>, \<open>v2 = (0,1,1)\<close> has the cross
  product \<open>(1,0,0)\<close>, which is not zero and already has a positive first coordinate; lines
  115-141 skip the pair through the final \<^verbatim>\<open>else: continue\<close> instead of going on to
  its Miller index. The pair comes from the points 1, 3 and 4 of the cubic lattice with
  \<^verbatim>\<open>maxindex = [2]\<close>: whatever the helpers of \<^verbatim>\<open>surftool\<close> are, the pass of the
  loop for this triple registers no candidate.
\<close>

theorem normalize_pair_positive_x_dropped:
  "cross (0, 1, 0) (0, 1, 1) = (1, 0, 0)
   \<and> norm3 (cross (0, 1, 0) (0, 1, 1)) \<noteq> 0
   \<and> normalize_pair ((0, 1, 0), (0, 1, 1)) = None
   \<and> process_triple st eye3 pg (bravaissup eye3 2) lo (1, 3, 4) = Inr (lo\<lparr>bb_var := Some 0\<rparr>)"
proof -
  have np: "normalize_pair ((0, 1, 0), (0, 1, 1)) = None"
    by (simp add: normalize_pair_def sign_canon_def norm3_def)
  have scan: "vertex_scan ((0, 0, 0), (0, 1, 0), (0, 1, 1)) [0, 1, 2] None (bb_var lo)
          = Inr (Some ((0, 1, 0), (0, 1, 1)), Some 0)"
    by (rule scan_step_found) simp_all
  have "process_triple st eye3 pg (bravaissup eye3 2) lo (1, 3, 4) = Inr (lo\<lparr>bb_var := Some 0\<rparr>)"
    using scan np
    by (simp add: process_triple_def bravaissup_eye3_2 bind_err_def Let_def
          del: vertex_scan.simps)
  then show ?thesis using np by (simp add: norm3_def)
qed

text \<open>
  Claim C8 (fails on the code). On the pair \<open>v1 = (0,0,1)\<close>, \<open>v2 = (0,1,0)\<close>, whose cross
  product is \<open>(-1,0,0)\<close>, the step swaps the vectors. Applied to the swapped pair, its
  own output, it takes the final \<^verbatim>\<open>else: continue\<close> and yields no pair at all.
\<close>

theorem normalize_pair_not_idempotent:
  "normalize_pair ((0, 0, 1), (0, 1, 0)) = Some ((0, 1, 0), (0, 0, 1), (1, 0, 0))
   \<and> normalize_pair ((0, 1, 0), (0, 0, 1)) = None"
  by (simp add: normalize_pair_def sign_canon_def norm3_def)

subsection \<open>Deduplication\<close>

text \<open>
  What the loop of lines 151-157 returns, and two consequences for lines 159-174: the
  candidate at the first position of the list is never replaced, and a candidate that is
  replaced gets the new points together with the value of the local \<^verbatim>\<open>twovects\<close>.
\<close>

lemma duplicate_scan_props:
  assumes "duplicate_scan mi n mc idxs (chk, dup, rep) = (chk', dup', rep')"
  shows "length chk' = length chk
       \<and> (dup' \<longleftrightarrow> dup \<or> (\<exists>mm\<in>set idxs. mc ! mm = mi))
       \<and> (rep' = rep \<or> (rep' \<in> set idxs \<and> mc ! rep' = mi))"
  using assms
proof (induction idxs arbitrary: chk dup rep)
  case Nil
  then show ?case by simp
next
  case (Cons mm idxs)
  show ?case
  proof (cases "mc ! mm = mi")
    case True
    show ?thesis
    proof (cases "norm3 n < norm3 (chk ! mm)")
      case less: True
      from Cons.prems True less
      have "duplicate_scan mi n mc idxs (chk[mm := n], True, mm) = (chk', dup', rep')" by simp
      from Cons.IH [OF this] True show ?thesis by auto
    next
      case False
      from Cons.prems True False
      have "duplicate_scan mi n mc idxs (chk, True, rep) = (chk', dup', rep')" by simp
      from Cons.IH [OF this] True show ?thesis by auto
    qed
  next
    case False
    from Cons.prems False
    have "duplicate_scan mi n mc idxs (chk, dup, rep) = (chk', dup', rep')" by simp
    from Cons.IH [OF this] False show ?thesis by auto
  qed
qed

lemma register_candidate_first_kept:
  assumes "register_candidate pts3 v1 v2 n mi lo = Inr lo'" "ListofS3A2V lo \<noteq> []"
  shows "ListofS3A2V lo' ! 0 = ListofS3A2V lo ! 0"
proof -
  obtain chk dup rep where ds:
    "duplicate_scan mi n (millercheck lo) [0..<length (millercheck lo)] (v1xv2check lo, False, 0)
       = (chk, dup, rep)"
    by (metis prod_cases3)
  from assms ds show ?thesis
    by (auto simp: register_candidate_def nth_append split: option.splits if_splits)
qed

lemma register_candidate_replaced_vectors:
  assumes "register_candidate pts3 v1 v2 n mi lo = Inr lo'"
    and "length (ListofS3A2V lo') = length (ListofS3A2V lo)" "i < length (ListofS3A2V lo)"
    and "ListofS3A2V lo' ! i \<noteq> ListofS3A2V lo ! i"
  shows "threepts (ListofS3A2V lo' ! i) = pts3 \<and> Some (twovects (ListofS3A2V lo' ! i)) = twovects_var lo"
proof -
  obtain chk dup rep where ds:
    "duplicate_scan mi n (millercheck lo) [0..<length (millercheck lo)] (v1xv2check lo, False, 0)
       = (chk, dup, rep)"
    by (metis prod_cases3)
  from assms ds show ?thesis
    by (auto simp: register_candidate_def nth_list_update split: option.splits if_splits)
qed

text \<open>
  Claim C4 (fails on the code). First run: a candidate of Miller index \<open>(1,0,0)\<close> and area
  2 is registered, then one of the same index and area 1; the list still holds the first
  candidate, since \<^verbatim>\<open>replace\<close> is 0 at the first position and line 171 asks for
  \<^verbatim>\<open>replace != 0\<close>. Second run: candidates of index \<open>(1,0,0)\<close>, of index \<open>(0,1,0)\<close> with
  area 2 and of index \<open>(0,1,0)\<close> with area 1 are registered; the candidate now at position
  1 has the points of the third and the in-plane vectors of the second, since line 173
  reads the local \<^verbatim>\<open>twovects\<close> of the last append.
\<close>

theorem register_candidate_replacement:
  "bind_err (register_candidate ((0, 0, 0), (0, 0, 2), (0, 1, 0)) (0, 1, 0) (0, 0, 2) (2, 0, 0)
               (1, 0, 0) locals0)
      (register_candidate ((0, 0, 0), (0, 0, 1), (0, 1, 0)) (0, 1, 0) (0, 0, 1) (1, 0, 0) (1, 0, 0))
    = Inr \<lparr>bb_var = None, twovects_var = Some ((0, 1, 0), (0, 0, 2)), v3_var = Some (0, 0, 0),
           standardbasis_var = Some eye3, v1xv2check = [(1, 0, 0)], millercheck = [(1, 0, 0)],
           ListofS3A2V =
             [\<lparr>threepts = ((0, 0, 0), (0, 0, 2), (0, 1, 0)), twovects = ((0, 1, 0), (0, 0, 2)),
               v3 = (0, 0, 0), standardbasis = eye3, millerindex = (1, 0, 0),
               atomcoords = [(0, 0, 0, 0)]\<rparr>]\<rparr>
   \<and> bind_err (register_candidate ((0, 0, 0), (0, 0, 1), (0, 1, 0)) (0, 1, 0) (0, 0, 1) (1, 0, 0)
               (1, 0, 0) locals0)
      (\<lambda>lo. bind_err (register_candidate ((0, 0, 0), (2, 0, 0), (0, 0, 1)) (0, 0, 1) (2, 0, 0)
                        (0, 2, 0) (0, 1, 0) lo)
      (register_candidate ((0, 0, 0), (1, 0, 0), (0, 0, 1)) (0, 0, 1) (1, 0, 0) (0, 1, 0) (0, 1, 0)))
    = Inr \<lparr>bb_var = None, twovects_var = Some ((0, 0, 1), (2, 0, 0)), v3_var = Some (0, 0, 0),
           standardbasis_var = Some eye3, v1xv2check = [(1, 0, 0), (0, 1, 0)],
           millercheck = [(1, 0, 0), (0, 1, 0)],
           ListofS3A2V =
             [\<lparr>threepts = ((0, 0, 0), (0, 0, 1), (0, 1, 0)), twovects = ((0, 1, 0), (0, 0, 1)),
               v3 = (0, 0, 0), standardbasis = eye3, millerindex = (1, 0, 0),
               atomcoords = [(0, 0, 0, 0)]\<rparr>,
              \<lparr>threepts = ((0, 0, 0), (1, 0, 0), (0, 0, 1)), twovects = ((0, 0, 1), (2, 0, 0)),
               v3 = (0, 0, 0), standardbasis = eye3, millerindex = (0, 1, 0),
               atomcoords = [(0, 0, 0, 0)]\<rparr>]\<rparr>"
  by (simp add: register_candidate_def bind_err_def locals0_def norm3_def)

subsection \<open>The third vector\<close>

lemma third_scan_skip_prefix:
  assumes nz: "S7 \<noteq> (0, 0, 0)" "v1 \<noteq> (0, 0, 0)" "v2 \<noteq> (0, 0, 0)"
    and cs: "\<forall>c\<in>set cs. c \<noteq> (0, 0, 0) \<longrightarrow>
               v3temp basis c \<noteq> (0, 0, 0)
               \<and> (dot S7 (v3temp basis c) < 0 \<or> dot v1 (v3temp basis c) < 0
                  \<or> dot v2 (v3temp basis c) < 0
                  \<or> (cross v1 (v3temp basis c) = (0, 0, 0) \<and> 0 < dot v1 (v3temp basis c))
                  \<or> (cross v2 (v3temp basis c) = (0, 0, 0) \<and> 0 < dot v2 (v3temp basis c)))"
  shows "third_scan basis S7 v1 v2 (cs @ rest) (lastT, v3cur)
           = third_scan basis S7 v1 v2 rest (lastT, v3cur)"
  using cs
proof (induction cs)
  case Nil
  then show ?case by simp
next
  case (Cons c cs)
  then have IH: "third_scan basis S7 v1 v2 (cs @ rest) (lastT, v3cur)
                   = third_scan basis S7 v1 v2 rest (lastT, v3cur)" by simp
  show ?case
  proof (cases "c = (0, 0, 0)")
    case True
    then show ?thesis using IH by simp
  next
    case False
    let ?w = "v3temp basis c"
    from Cons.prems False have w: "?w \<noteq> (0, 0, 0)"
      and bad: "dot S7 ?w < 0 \<or> dot v1 ?w < 0 \<or> dot v2 ?w < 0
                \<or> (cross v1 ?w = (0, 0, 0) \<and> 0 < dot v1 ?w)
                \<or> (cross v2 ?w = (0, 0, 0) \<and> 0 < dot v2 ?w)"
      by auto
    obtain T where T: "ang S7 ?w = Inr T" using ang_nonzero [OF nz(1) w] by blast
    obtain Tv1 where Tv1: "ang v1 ?w = Inr Tv1" using ang_nonzero [OF nz(2) w] by blast
    obtain Tv2 where Tv2: "ang v2 ?w = Inr Tv2" using ang_nonzero [OF nz(3) w] by blast
    have "\<not> (T \<le> pi / 2 \<and> Tv1 \<le> pi / 2 \<and> Tv2 \<le> pi / 2 \<and> Tv1 > 0 \<and> Tv2 > 0)"
      using bad ang_le_half_pi_iff [OF nz(1) w T] ang_le_half_pi_iff [OF nz(2) w Tv1]
        ang_le_half_pi_iff [OF nz(3) w Tv2] ang_parallel [OF nz(2) w] ang_parallel [OF nz(3) w]
        Tv1 Tv2
      by auto
    then show ?thesis using False T Tv1 Tv2 IH by (auto simp: bind_err_def)
  qed
qed

lemma third_scan_keep_all:
  assumes nz: "S7 \<noteq> (0, 0, 0)" "v1 \<noteq> (0, 0, 0)" "v2 \<noteq> (0, 0, 0)"
    and cs: "\<forall>c\<in>set cs. c \<noteq> (0, 0, 0) \<longrightarrow> v3temp basis c \<noteq> (0, 0, 0)"
    and le: "lastT \<le> 0"
  shows "third_scan basis S7 v1 v2 cs (lastT, v3cur) = Inr (lastT, v3cur)"
  using cs
proof (induction cs)
  case Nil
  then show ?case by simp
next
  case (Cons c cs)
  then have IH: "third_scan basis S7 v1 v2 cs (lastT, v3cur) = Inr (lastT, v3cur)" by simp
  show ?case
  proof (cases "c = (0, 0, 0)")
    case True
    then show ?thesis using IH by simp
  next
    case False
    let ?w = "v3temp basis c"
    from Cons.prems False have w: "?w \<noteq> (0, 0, 0)" by auto
    obtain T where T: "ang S7 ?w = Inr T" using ang_nonzero [OF nz(1) w] by blast
    obtain Tv1 where Tv1: "ang v1 ?w = Inr Tv1" using ang_nonzero [OF nz(2) w] by blast
    obtain Tv2 where Tv2: "ang v2 ?w = Inr Tv2" using ang_nonzero [OF nz(3) w] by blast
    have "\<not> T < lastT" using ang_nonneg [OF nz(1) w T] le by simp
    then show ?thesis using False T Tv1 Tv2 IH by (auto simp: bind_err_def)
  qed
qed

lemma third_scan_take:
  assumes "c \<noteq> (0, 0, 0)" "ang S7 (v3temp basis c) = Inr T" "ang v1 (v3temp basis c) = Inr Tv1"
    and "ang v2 (v3temp basis c) = Inr Tv2"
    and "T \<le> pi / 2" "Tv1 \<le> pi / 2" "Tv2 \<le> pi / 2" "0 < Tv1" "0 < Tv2" "T < lastT"
  shows "third_scan basis S7 v1 v2 (c # rest) (lastT, v3cur)
           = third_scan basis S7 v1 v2 rest (T, Some (v3temp basis c))"
  using assms by (simp add: bind_err_def)

lemma combos_list:
  "combos = [(- 1, - 1, - 1), (- 1, - 1, 0), (- 1, - 1, 1), (- 1, 0, - 1), (- 1, 0, 0), (- 1, 0, 1),
             (- 1, 1, - 1), (- 1, 1, 0), (- 1, 1, 1), (0, - 1, - 1), (0, - 1, 0), (0, - 1, 1),
             (0, 0, - 1), (0, 0, 0), (0, 0, 1), (0, 1, - 1), (0, 1, 0), (0, 1, 1),
             (1, - 1, - 1), (1, - 1, 0), (1, - 1, 1), (1, 0, - 1), (1, 0, 0), (1, 0, 1),
             (1, 1, - 1), (1, 1, 0), (1, 1, 1)]"
proof -
  have "[- 1..1] = [- 1, 0, (1::int)]" by (simp add: upto_rec1)
  then show ?thesis by (simp add: combos_def)
qed

lemma bravaissup_skew_2:
  "bravaissup ((- 1, - 2, 0), (0, - 1, 0), (0, 1, 1)) 2 =
     [(0, 0, 0), (0, 1, 1), (0, - 1, 0), (0, 0, 1), (- 1, - 2, 0), (- 1, - 1, 1), (- 1, - 3, 0),
      (- 1, - 2, 1)]"
  by (simp add: bravaissup_def upt_rec)

lemma enumerate_skew:
  "enumerate_loop one_family ((- 1, - 2, 0), (0, - 1, 0), (0, 1, 1)) ()
      (bravaissup ((- 1, - 2, 0), (0, - 1, 0), (0, 1, 1)) 2) locals0 (POS 8)
     = Inr \<lparr>bb_var = Some 0, twovects_var = Some ((0, 0, 1), (0, - 1, 0)), v3_var = Some (0, 0, 0),
            standardbasis_var = Some eye3, v1xv2check = [(1, 0, 0)], millercheck = [(1, 0, 0)],
            ListofS3A2V =
              [\<lparr>threepts = ((0, 0, 0), (0, - 1, 0), (0, 0, 1)), twovects = ((0, 0, 1), (0, - 1, 0)),
                v3 = (0, 0, 0), standardbasis = eye3, millerindex = (1, 0, 0),
                atomcoords = [(0, 0, 0, 0)]\<rparr>]\<rparr>"
  by (simp add: POS_8 bravaissup_skew_2 process_triple_def bind_err_def Let_def locals0_def
        scan_first_vertex scan_second_vertex normalize_pair_def sign_canon_def norm3_def
        register_candidate_def one_family_def
        del: vertex_scan.simps)

text \<open>
  Claim C3 (fails on the code). For the basis \<open>a = (-1,-2,0)\<close>, \<open>b = (0,-1,0)\<close>,
  \<open>c = (0,1,1)\<close> and the candidate with \<open>v1 = (0,0,1)\<close>, \<open>v2 = (0,-1,0)\<close> none of the 26
  combinations passes the test of line 212. The search raises nothing and line 218 stores
  the value that the local \<^verbatim>\<open>v3\<close> had before the search, here the \<^verbatim>\<open>[0,0,0]\<close>
  of line 165, in the candidate. The candidate is the one that the enumeration with
  \<^verbatim>\<open>maxindex = [2]\<close> and the helpers \<open>one_family\<close> builds for this basis: the loop over
  the candidates ends without an exception and leaves it in the list, with the zero vector
  as its third vector.
\<close>

theorem find_third_keeps_stale_vector:
  "find_third ((- 1, - 2, 0), (0, - 1, 0), (0, 1, 1))
     \<lparr>threepts = ((0, 0, 0), (0, - 1, 0), (0, 0, 1)), twovects = ((0, 0, 1), (0, - 1, 0)),
      v3 = (0, 0, 0), standardbasis = eye3, millerindex = (1, 0, 0),
      atomcoords = [(0, 0, 0, 0)]\<rparr> (Some (0, 0, 0))
   = Inr (\<lparr>threepts = ((0, 0, 0), (0, - 1, 0), (0, 0, 1)), twovects = ((0, 0, 1), (0, - 1, 0)),
           v3 = (0, 0, 0), standardbasis = eye3, millerindex = (1, 0, 0),
           atomcoords = [(0, 0, 0, 0)]\<rparr>, Some (0, 0, 0))
   \<and> bind_err (enumerate_loop one_family ((- 1, - 2, 0), (0, - 1, 0), (0, 1, 1)) ()
                 (bravaissup ((- 1, - 2, 0), (0, - 1, 0), (0, 1, 1)) 2) locals0 (POS 8))
        (\<lambda>lo. third_vector_loop ((- 1, - 2, 0), (0, - 1, 0), (0, 1, 1)) (ListofS3A2V lo)
                (v3_var lo))
     = Inr [\<lparr>threepts = ((0, 0, 0), (0, - 1, 0), (0, 0, 1)), twovects = ((0, 0, 1), (0, - 1, 0)),
             v3 = (0, 0, 0), standardbasis = eye3, millerindex = (1, 0, 0),
             atomcoords = [(0, 0, 0, 0)]\<rparr>]"
proof -
  have scan: "third_scan ((- 1, - 2, 0), (0, - 1, 0), (0, 1, 1)) (1, 0, 0) (0, 0, 1) (0, - 1, 0)
          combos (100, Some (0, 0, 0)) = Inr (100, Some (0, 0, 0))"
    using third_scan_skip_prefix [of "(1, 0, 0)" "(0, 0, 1)" "(0, - 1, 0)" combos
        "((- 1, - 2, 0), (0, - 1, 0), (0, 1, 1))" "[]" 100 "Some (0, 0, 0)"]
    by (simp add: combos_list v3temp_def)
  then have ft: "find_third ((- 1, - 2, 0), (0, - 1, 0), (0, 1, 1))
     \<lparr>threepts = ((0, 0, 0), (0, - 1, 0), (0, 0, 1)), twovects = ((0, 0, 1), (0, - 1, 0)),
      v3 = (0, 0, 0), standardbasis = eye3, millerindex = (1, 0, 0),
      atomcoords = [(0, 0, 0, 0)]\<rparr> (Some (0, 0, 0))
   = Inr (\<lparr>threepts = ((0, 0, 0), (0, - 1, 0), (0, 0, 1)), twovects = ((0, 0, 1), (0, - 1, 0)),
           v3 = (0, 0, 0), standardbasis = eye3, millerindex = (1, 0, 0),
           atomcoords = [(0, 0, 0, 0)]\<rparr>, Some (0, 0, 0))"
    by (simp add: find_third_def bind_err_def)
  show ?thesis
    by (simp add: ft enumerate_skew) (simp add: bind_err_def ft)
qed

subsection \<open>The orthogonalization and its checks\<close>
























text \<open>
  When the nine angles are defined, the checks raise exactly when a comparison of lines
  248, 251, 265 or 272 holds.
\<close>

lemma gs_validate_raises_iff:
  assumes "ang f1 f2 = Inr A" "ang f3 f2 = Inr B" "ang f1 f3 = Inr C"
    and "ang b1 b2 = Inr a1" "ang b2 b3 = Inr a2" "ang b1 b3 = Inr a3"
    and P: "P = posbas f1 f2 f3 b1 b2 b3"
    and "ang (row P 0) (row P 1) = Inr p1" "ang (row P 1) (row P 2) = Inr p2"
    and "ang (row P 0) (row P 2) = Inr p3"
  shows "(\<exists>m. gs_validate f1 f2 f3 b1 b2 b3 = Inl (SystemError m)) \<longleftrightarrow>
           \<bar>A - pi / 2\<bar> \<ge> 0.0001 \<or> \<bar>B - pi / 2\<bar> \<ge> 0.0001 \<or> \<bar>C - pi / 2\<bar> \<ge> 0.0001
           \<or> sproj f2 b1 \<ge> 0.001 \<or> sproj f3 b1 > 0.001 \<or> sproj f3 b2 > 0.001
           \<or> a1 - p1 \<ge> 0.001 \<or> a2 - p2 \<ge> 0.001 \<or> a3 - p3 \<ge> 0.001
           \<or> norm3 b1 - norm3 (row P 0) > 0.0001 \<or> norm3 b2 - norm3 (row P 1) \<ge> 0.0001
           \<or> norm3 b3 - norm3 (row P 2) \<ge> 0.0001"
  unfolding gs_validate_def frame_check_def Let_def P [symmetric] assms(1-6,8-10)
  by (simp add: bind_err_def)

text \<open>
  The comparisons of lines 251, 265 and 272 are signed, unlike the one of line 248: values
  with a deviation in the negative direction would pass them. Here the entry above the
  diagonal \<^verbatim>\<open>sproj(f2hat,b1)\<close> is \<open>-0.01\<close>. By \<open>gs_frame_invariants\<close>, lines 230-239
  compute no such values in exact arithmetic; only the rounding of floats, which is outside
  this model, can bring a deviation to line 248.
\<close>

lemma ang_axes:
  "ang (1, 0, 0) (0, 1, 0) = Inr (pi / 2)" "ang (0, 0, 1) (0, 1, 0) = Inr (pi / 2)"
  "ang (1, 0, 0) (0, 0, 1) = Inr (pi / 2)" "ang (1, 0, 0) (0, - 1, 0) = Inr (pi / 2)"
  "ang (0, - 1, 0) (0, 0, 1) = Inr (pi / 2)"
  by (simp_all add: ang_def norm3_def arccos_0)

lemma gs_validate_signed_comparisons:
  "gs_validate (1, 0, 0) (0, 1, 0) (0, 0, 1) (1, - (1 / 100), 0) (0, - 1, 0) (0, 0, 1)
     = Inr ((1, 0, 0), (0, - 1, 0), (0, 0, 1))
   \<and> spec_invariant_violated (1, 0, 0) (0, 1, 0) (0, 0, 1) (1, - (1 / 100), 0) (0, - 1, 0) (0, 0, 1)
   \<and> unit_vector (1, - (1 / 100), 0) \<noteq> Inr (1, 0, 0)"
proof -
  let ?b1 = "(1, - (1 / 100), 0) :: vec3"
  have fc: "frame_check (1, 0, 0) (0, 1, 0) (0, 0, 1) = Inr False"
    by (simp add: frame_check_def bind_err_def ang_axes)
  have nz: "?b1 \<noteq> (0, 0, 0)" "(0, - 1, 0) \<noteq> (0 :: real, 0 :: real, 0 :: real)" by simp_all
  obtain A1 where A1: "ang ?b1 (0, - 1, 0) = Inr A1"
    using ang_nonzero [OF nz] by blast
  have A1_le: "A1 \<le> pi / 2"
    using ang_le_half_pi_iff [OF nz A1] by simp
  have a3: "ang ?b1 (0, 0, 1) = Inr (pi / 2)"
    by (simp add: ang_def norm3_def arccos_0)
  have "sqrt (10001 / 10000) \<le> 10001 / 10000"
    by (rule real_le_lsqrt) (simp_all add: power2_eq_square)
  then have La: "\<not> norm3 ?b1 - 1 > 0.0001"
    by (simp add: norm3_def)
  have n1: "norm3 (1, 0, 0) = 1" "norm3 (0, - 1, 0) = 1" "norm3 (0, 0, 1) = 1"
    by (simp_all add: norm3_def)
  have first: "gs_validate (1, 0, 0) (0, 1, 0) (0, 0, 1) ?b1 (0, - 1, 0) (0, 0, 1)
                 = Inr ((1, 0, 0), (0, - 1, 0), (0, 0, 1))"
    using fc A1 A1_le a3 La n1
    by (simp add: gs_validate_def bind_err_def posbas_def sproj_def ang_axes Let_def)
  have "\<bar>sproj (0, 1, 0) ?b1\<bar> \<ge> 0.001" by (simp add: sproj_def)
  then have second: "spec_invariant_violated (1, 0, 0) (0, 1, 0) (0, 0, 1) ?b1 (0, - 1, 0) (0, 0, 1)"
    unfolding spec_invariant_violated_def Let_def by blast
  have third: "unit_vector ?b1 \<noteq> Inr (1, 0, 0)"
    by (simp add: unit_vector_def)
  show ?thesis using first second third by blast
qed



subsection \<open>The atoms of the new cell\<close>

text \<open>
  Claim C7 as stated fails: the atom at exactly \<open>(0.999, 0, 0)\<close> is not kept.
\<close>

theorem remove_excess_atoms_upper_counterexample:
  "\<not> keep_atom (999 / 1000, 0, 0, 0) \<and> remove_excess_atoms [(999 / 1000, 0, 0, 0)] = []"
  by (simp add: remove_excess_atoms_def)

text \<open>
  Claim C7, amended. The filter keeps an atom exactly when each of its three coordinates
  lies in the half-open interval from \<open>-0.001\<close> to \<open>0.999\<close>; the atom at \<open>(0, 0, 0)\<close> is
  kept, the atoms at \<open>(0.999, 0, 0)\<close> and at \<open>(1, 0, 0)\<close> are removed.
\<close>

theorem remove_excess_atoms_interval:
  "remove_excess_atoms NewAtoms =
     filter (\<lambda>(x, y, z, l). x \<in> {- (1 / 1000)..<999 / 1000} \<and> y \<in> {- (1 / 1000)..<999 / 1000}
                              \<and> z \<in> {- (1 / 1000)..<999 / 1000}) NewAtoms
   \<and> remove_excess_atoms [(0, 0, 0, l)] = [(0, 0, 0, l)]
   \<and> remove_excess_atoms [(999 / 1000, 0, 0, l)] = []
   \<and> remove_excess_atoms [(1, 0, 0, l)] = []"
proof -
  have "keep_atom = (\<lambda>(x, y, z, l). x \<in> {- (1 / 1000)..<999 / 1000}
                        \<and> y \<in> {- (1 / 1000)..<999 / 1000} \<and> z \<in> {- (1 / 1000)..<999 / 1000})"
    by (auto simp: fun_eq_iff)
  then show ?thesis by (simp add: remove_excess_atoms_def)
qed

text \<open>
  Claim C5 (fails on the code). With 200 bulk atoms, 199 retained atoms and a volume ratio
  of 1 the exact ratio \<open>199/200\<close> is within \<open>0.01\<close> of the volume ratio, yet the check
  raises, since \<^verbatim>\<open>199/200\<close> is \<open>0\<close> in Python 2. With 2 bulk atoms, 3 retained atoms and
  a volume ratio of 1 the exact ratio is off by \<open>0.5\<close>, yet the check passes.
\<close>

theorem volume_check_floor_division:
  "volume_check 199 200 1
     = Inl (SystemError ''ERROR: Number of atoms inconsistent with the size of basis!'')
   \<and> \<bar>(199 :: real) / 200 - 1\<bar> < 0.01
   \<and> volume_check 3 2 1 = Inr ()
   \<and> \<bar>(3 :: real) / 2 - 1\<bar> \<ge> 0.01"
  by (simp add: volume_check_def)

subsection \<open>The whole function: what a call that does not raise has built\<close>

lemma register_candidate_inv:
  assumes "register_candidate pts3 v1 v2 n mi lo = Inr lo'"
    and "millercheck lo = map millerindex (ListofS3A2V lo)" "distinct (millercheck lo)"
  shows "millercheck lo' = map millerindex (ListofS3A2V lo') \<and> distinct (millercheck lo')"
proof -
  obtain chk dup rep where ds:
    "duplicate_scan mi n (millercheck lo) [0..<length (millercheck lo)] (v1xv2check lo, False, 0)
       = (chk, dup, rep)"
    by (metis prod_cases3)
  from duplicate_scan_props [OF ds]
  have dup: "dup \<longleftrightarrow> (\<exists>mm<length (millercheck lo). millercheck lo ! mm = mi)"
    and rep: "rep = 0 \<or> (rep < length (millercheck lo) \<and> millercheck lo ! rep = mi)"
    by auto
  show ?thesis
  proof (cases dup)
    case False
    then have "mi \<notin> set (millercheck lo)" using dup by (auto simp: in_set_conv_nth)
    moreover from assms(1) ds False
    have "millercheck lo' = millercheck lo @ [mi]"
      and "map millerindex (ListofS3A2V lo') = map millerindex (ListofS3A2V lo) @ [mi]"
      by (auto simp: register_candidate_def)
    ultimately show ?thesis using assms(2,3) by auto
  next
    case True
    show ?thesis
    proof (cases "rep = 0")
      case True
      with assms(1) ds \<open>dup\<close> have "lo' = lo\<lparr>v1xv2check := chk\<rparr>"
        by (simp add: register_candidate_def)
      then show ?thesis using assms(2,3) by auto
    next
      case False
      with rep have r: "rep < length (millercheck lo)" "millercheck lo ! rep = mi" by auto
      from assms(1) ds \<open>dup\<close> False
      have "millercheck lo' = millercheck lo"
        and "map millerindex (ListofS3A2V lo') = (map millerindex (ListofS3A2V lo))[rep := mi]"
        by (auto simp: register_candidate_def map_update split: option.splits if_splits)
      moreover have "(millercheck lo)[rep := mi] = millercheck lo"
        using r by (metis list_update_id)
      ultimately show ?thesis using assms(2,3) by simp
    qed
  qed
qed

lemma process_triple_cases:
  assumes "process_triple st basis pg pts lo ncr = Inr lo'"
  shows "(\<exists>b. lo' = lo\<lparr>bb_var := b\<rparr>)
       \<or> (\<exists>b pts3 v1 v2 n mi. register_candidate pts3 v1 v2 n mi (lo\<lparr>bb_var := b\<rparr>) = Inr lo')"
proof -
  obtain i j k where ncr: "ncr = (i, j, k)" by (cases ncr) auto
  let ?S = "(pts ! (i - 1), pts ! (j - 1), pts ! (k - 1))"
  note defs = process_triple_def ncr bind_err_def Let_def
  show ?thesis
  proof (cases "vertex_scan ?S [0, 1, 2] None (bb_var lo)")
    case (Inl e)
    then show ?thesis using assms by (simp add: defs del: vertex_scan.simps row.simps)
  next
    case (Inr r)
    obtain v1v2 bb where r: "r = (v1v2, bb)" by (cases r) auto
    show ?thesis
    proof (cases v1v2)
      case None
      then show ?thesis using assms Inr r by (simp add: defs del: vertex_scan.simps row.simps)
    next
      case p: (Some p)
      show ?thesis
      proof (cases bb)
        case None
        then show ?thesis using assms Inr r p
          by (simp add: defs del: vertex_scan.simps row.simps)
      next
        case b: (Some b)
        show ?thesis
        proof (cases "normalize_pair p")
          case None
          then have "lo' = lo\<lparr>bb_var := Some b\<rparr>" using assms Inr r p b
            by (simp add: defs del: vertex_scan.simps row.simps)
          then show ?thesis by blast
        next
          case (Some t)
          obtain v1 v2 n where t: "t = (v1, v2, n)" by (cases t) auto
          from assms Inr r p b Some t
          have "\<exists>pts3 mi. register_candidate pts3 v1 v2 n mi (lo\<lparr>bb_var := Some b\<rparr>) = Inr lo'"
            by (auto simp: defs simp del: vertex_scan.simps row.simps split_paired_Ex
                  split: sum.splits if_splits)
          then show ?thesis by blast
        qed
      qed
    qed
  qed
qed

lemma process_triple_inv:
  assumes "process_triple st basis pg pts lo ncr = Inr lo'"
    and "millercheck lo = map millerindex (ListofS3A2V lo)" "distinct (millercheck lo)"
  shows "millercheck lo' = map millerindex (ListofS3A2V lo') \<and> distinct (millercheck lo')"
proof -
  have upd: "\<And>b. millercheck (lo\<lparr>bb_var := b\<rparr>) = map millerindex (ListofS3A2V (lo\<lparr>bb_var := b\<rparr>))"
    "\<And>b. distinct (millercheck (lo\<lparr>bb_var := b\<rparr>))"
    using assms(2,3) by simp_all
  from process_triple_cases [OF assms(1)] show ?thesis
  proof
    assume "\<exists>b. lo' = lo\<lparr>bb_var := b\<rparr>"
    then show ?thesis using upd by auto
  next
    assume "\<exists>b pts3 v1 v2 n mi. register_candidate pts3 v1 v2 n mi (lo\<lparr>bb_var := b\<rparr>) = Inr lo'"
    then obtain b pts3 v1 v2 n mi
      where "register_candidate pts3 v1 v2 n mi (lo\<lparr>bb_var := b\<rparr>) = Inr lo'" by blast
    from register_candidate_inv [OF this upd] show ?thesis .
  qed
qed

lemma enumerate_loop_inv:
  assumes "enumerate_loop st basis pg pts lo tr = Inr lo'"
    and "millercheck lo = map millerindex (ListofS3A2V lo)" "distinct (millercheck lo)"
  shows "millercheck lo' = map millerindex (ListofS3A2V lo') \<and> distinct (millercheck lo')"
  using assms
proof (induction tr arbitrary: lo)
  case Nil
  then show ?case by simp
next
  case (Cons ncr tr)
  from Cons.prems(1) obtain lo1 where
    1: "process_triple st basis pg pts lo ncr = Inr lo1"
    and 2: "enumerate_loop st basis pg pts lo1 tr = Inr lo'"
    by (auto simp: bind_err_Inr)
  from process_triple_inv [OF 1 Cons.prems(2,3)] Cons.IH [OF 2] show ?case by blast
qed

lemma for_each_Inr:
  assumes "for_each f xs = Inr ys"
  shows "list_all2 (\<lambda>x y. f x = Inr y) xs ys"
  using assms by (induction xs arbitrary: ys) (auto simp: bind_err_Inr)

lemma for_each_map:
  assumes "for_each f xs = Inr ys" "\<And>x y. f x = Inr y \<Longrightarrow> g y = g x"
  shows "map g ys = map g xs"
  using for_each_Inr [OF assms(1)] assms(2)
  by (induction xs ys rule: list_all2_induct) auto

lemma for_each_mem:
  assumes "for_each f xs = Inr ys" "y \<in> set ys"
  shows "\<exists>x\<in>set xs. f x = Inr y"
  using for_each_Inr [OF assms(1)] assms(2)
  by (induction xs ys rule: list_all2_induct) auto

lemma find_third_millerindex:
  assumes "find_third basis S v = Inr (S', v')"
  shows "millerindex S' = millerindex S"
  using assms by (auto simp: find_third_def bind_err_Inr split: option.splits prod.splits)

lemma third_vector_loop_millerindex:
  assumes "third_vector_loop basis L v = Inr L'"
  shows "map millerindex L' = map millerindex L"
  using assms
  by (induction L arbitrary: v L') (auto simp: bind_err_Inr dest: find_third_millerindex)

lemma gs_validate_Inr:
  assumes "gs_validate f1 f2 f3 b1 b2 b3 = Inr P"
  shows "P = posbas f1 f2 f3 b1 b2 b3"
  using assms by (auto simp: gs_validate_def bind_err_Inr Let_def split: if_splits)

lemma gram_schmidt_Inr:
  assumes "gram_schmidt S = Inr S'"
  shows "millerindex S' = millerindex S
       \<and> coord (row (standardbasis S') 0) 1 = 0 \<and> coord (row (standardbasis S') 0) 2 = 0
       \<and> coord (row (standardbasis S') 1) 2 = 0"
  using assms
  by (auto simp: gram_schmidt_def bind_err_Inr posbas_def dest!: gs_validate_Inr)

lemma remap_Inr:
  assumes "remap basis atoms primvol S = Inr S'"
  shows "millerindex S' = millerindex S \<and> standardbasis S' = standardbasis S
       \<and> (\<forall>a\<in>set (atomcoords S'). keep_atom a)
       \<and> volume_check (length (atomcoords S')) (length atoms) (newbasisvolume S' / primvol) = Inr ()"
  using assms
  by (auto simp: remap_def bind_err_Inr Let_def remove_excess_atoms_def newbasisvolume_def)

subsection \<open>The whole function on the cubic lattice with \<^verbatim>\<open>maxindex = [2]\<close>\<close>

text \<open>
  The run for the basis \<open>I\<close>, one atom at the origin and the helpers \<open>one_family\<close>: 56
  point triples, of which the first one gives the only candidate.
\<close>

lemma enumerate_cubic:
  "enumerate_loop one_family eye3 () (bravaissup eye3 2) locals0 (POS 8)
     = Inr \<lparr>bb_var = Some 0, twovects_var = Some ((0, 1, 0), (0, 0, 1)), v3_var = Some (0, 0, 0),
            standardbasis_var = Some eye3, v1xv2check = [(1, 0, 0)], millercheck = [(1, 0, 0)],
            ListofS3A2V =
              [\<lparr>threepts = ((0, 0, 0), (0, 0, 1), (0, 1, 0)), twovects = ((0, 1, 0), (0, 0, 1)),
                v3 = (0, 0, 0), standardbasis = eye3, millerindex = (1, 0, 0),
                atomcoords = [(0, 0, 0, 0)]\<rparr>]\<rparr>"
  by (simp add: POS_8 bravaissup_eye3_2 process_triple_def bind_err_def Let_def locals0_def
        scan_first_vertex normalize_pair_def sign_canon_def norm3_def register_candidate_def one_family_def
        del: vertex_scan.simps)

lemma combos_split:
  "combos =
     [(- 1, - 1, - 1), (- 1, - 1, 0), (- 1, - 1, 1), (- 1, 0, - 1), (- 1, 0, 0), (- 1, 0, 1),
      (- 1, 1, - 1), (- 1, 1, 0), (- 1, 1, 1), (0, - 1, - 1), (0, - 1, 0), (0, - 1, 1),
      (0, 0, - 1), (0, 0, 0), (0, 0, 1), (0, 1, - 1), (0, 1, 0)]
     @ (0, 1, 1) # [(1, - 1, - 1), (1, - 1, 0), (1, - 1, 1), (1, 0, - 1)]
     @ (1, 0, 0) # [(1, 0, 1), (1, 1, - 1), (1, 1, 0), (1, 1, 1)]"
  by (simp add: combos_list)

lemma third_scan_cubic:
  "third_scan eye3 (1, 0, 0) (0, 1, 0) (0, 0, 1) combos (100, Some (0, 0, 0))
     = Inr (0, Some (1, 0, 0))"
proof -
  let ?scan = "third_scan eye3 (1, 0, 0) (0, 1, 0) (0, 0, 1)"
  let ?R3 = "[(1, 0, 1), (1, 1, - 1), (1, 1, 0), (1, 1, 1)] :: (int \<times> int \<times> int) list"
  let ?R2 = "[(1, - 1, - 1), (1, - 1, 0), (1, - 1, 1), (1, 0, - 1)] @ (1, 0, 0) # ?R3"
  have pi100: "pi < 200" using pi_less_4 by linarith
  have v: "v3temp eye3 (0, 1, 1) = (0, 1, 1)" "v3temp eye3 (1, 0, 0) = (1, 0, 0)"
    by (simp_all add: v3temp_def eye3_def)
  have a: "ang (1, 0, 0) (0, 1, 1) = Inr (pi / 2)" "ang (0, 1, 0) (0, 1, 1) = Inr (pi / 4)"
    "ang (0, 0, 1) (0, 1, 1) = Inr (pi / 4)"
    by (simp_all add: ang_def norm3_def arccos_one_over_sqrt_2)
  have b: "ang (1, 0, 0) (1, 0, 0) = Inr 0" "ang (0, 1, 0) (1, 0, 0) = Inr (pi / 2)"
    "ang (0, 0, 1) (1, 0, 0) = Inr (pi / 2)"
    by (simp_all add: ang_def norm3_def)
  have "?scan combos (100, Some (0, 0, 0)) = ?scan ((0, 1, 1) # ?R2) (100, Some (0, 0, 0))"
    unfolding combos_split
    by (rule third_scan_skip_prefix) (simp_all add: v3temp_def eye3_def)
  also have "\<dots> = ?scan ?R2 (pi / 2, Some (v3temp eye3 (0, 1, 1)))"
    by (rule third_scan_take [where ?Tv1.0 = "pi / 4" and ?Tv2.0 = "pi / 4"])
      (simp_all add: v a pi100)
  also have "\<dots> = ?scan ((1, 0, 0) # ?R3) (pi / 2, Some (v3temp eye3 (0, 1, 1)))"
    by (rule third_scan_skip_prefix) (simp_all add: v3temp_def eye3_def)
  also have "\<dots> = ?scan ?R3 (0, Some (v3temp eye3 (1, 0, 0)))"
    by (rule third_scan_take [where ?Tv1.0 = "pi / 2" and ?Tv2.0 = "pi / 2"])
      (simp_all add: v b)
  also have "\<dots> = Inr (0, Some (v3temp eye3 (1, 0, 0)))"
    by (rule third_scan_keep_all) (simp_all add: v3temp_def eye3_def)
  finally show ?thesis by (simp only: v)
qed

lemma third_vector_cubic:
  "third_vector_loop eye3
     [\<lparr>threepts = ((0, 0, 0), (0, 0, 1), (0, 1, 0)), twovects = ((0, 1, 0), (0, 0, 1)),
       v3 = (0, 0, 0), standardbasis = eye3, millerindex = (1, 0, 0),
       atomcoords = [(0, 0, 0, 0)]\<rparr>] (Some (0, 0, 0))
   = Inr [\<lparr>threepts = ((0, 0, 0), (0, 0, 1), (0, 1, 0)), twovects = ((0, 1, 0), (0, 0, 1)),
            v3 = (1, 0, 0), standardbasis = eye3, millerindex = (1, 0, 0),
            atomcoords = [(0, 0, 0, 0)]\<rparr>]"
  by (simp add: find_third_def bind_err_def third_scan_cubic)

lemma gram_schmidt_cubic:
  "gram_schmidt \<lparr>threepts = ((0, 0, 0), (0, 0, 1), (0, 1, 0)), twovects = ((0, 1, 0), (0, 0, 1)),
            v3 = (1, 0, 0), standardbasis = eye3, millerindex = (1, 0, 0),
            atomcoords = [(0, 0, 0, 0)]\<rparr>
   = Inr \<lparr>threepts = ((0, 0, 0), (0, 0, 1), (0, 1, 0)), twovects = ((0, 1, 0), (0, 0, 1)),
            v3 = (1, 0, 0), standardbasis = eye3, millerindex = (1, 0, 0),
            atomcoords = [(0, 0, 0, 0)]\<rparr>"
  by (simp add: gram_schmidt_def gs_frame_def gs_validate_def frame_check_def posbas_def
        sproj_def proj_def unit_vector_def bind_err_def Let_def ang_def norm3_def eye3_def)

lemma inv3_eye3: "inv3 eye3 = Inr eye3"
  by (simp add: inv3_def det3_def eye3_def)

lemma transpose3_eye3: "transpose3 eye3 = eye3"
  by (simp add: eye3_def)

lemma mat_vec_eye3: "mat_vec eye3 v = v"
  by (cases v) (simp add: mat_vec_def eye3_def)

lemma mat_mul_eye3: "mat_mul A eye3 = A"
  by (cases A) (simp add: mat_mul_def transpose3_eye3 mat_vec_eye3)

lemma py_round_01: "py_round 0 = 0" "py_round 1 = 1"
  by (simp_all add: py_round_def)

lemma bounding_box_cubic:
  "bounding_box (0, 1, 0) (0, 0, 1) (1, 0, 0) = ([1, 1, 1], [0, 0, 0])"
  by (simp add: bounding_box_def bound_axis_def py_round_01 upt_rec)

lemma replicate_atoms_cubic:
  "replicate_atoms [(0, 0, 0)] ([1, 1, 1], [0, 0, 0]) =
     [(0, 0, 0, 0), (0, 0, 1, 0), (0, 1, 0, 0), (0, 1, 1, 0),
      (1, 0, 0, 0), (1, 0, 1, 0), (1, 1, 0, 0), (1, 1, 1, 0)]"
proof -
  have "[0..1] = [0, 1 :: int]" by (simp add: upto_rec1)
  then show ?thesis by (simp add: replicate_atoms_def)
qed

lemma inv3_cubic:
  "inv3 (transpose3 ((0, 1, 0), (0, 0, 1), (1, 0, 0))) = Inr ((0, 1, 0), (0, 0, 1), (1, 0, 0))"
  by (simp add: inv3_def det3_def)

lemma retained_cubic:
  "remove_excess_atoms (map (to_new_basis ((0, 1, 0), (0, 0, 1), (1, 0, 0)))
     [(0, 0, 0, 0), (0, 0, 1, 0), (0, 1, 0, 0), (0, 1, 1, 0),
      (1, 0, 0, 0), (1, 0, 1, 0), (1, 1, 0, 0), (1, 1, 1, 0)]) = [(0, 0, 0, 0)]"
  by (simp add: remove_excess_atoms_def mat_vec_def)

lemma remap_steps:
  assumes "inv3 basis = Inr binv" "inv3 (transpose3 basis) = Inr btinv"
    and "NewB = (fst (twovects S), snd (twovects S), v3 S)"
    and "bounding_box (mat_vec btinv (row NewB 0)) (mat_vec btinv (row NewB 1))
           (mat_vec btinv (row NewB 2)) = Sxyz"
    and "inv3 (transpose3 (mat_mul NewB binv)) = Inr Cti"
    and "remove_excess_atoms (map (to_new_basis Cti) (replicate_atoms atoms Sxyz)) = AtomicCoords"
    and "volume_check (length AtomicCoords) (length atoms) (newbasisvolume S / primvol) = Inr ()"
  shows "remap basis atoms primvol S = Inr (S\<lparr>atomcoords := AtomicCoords\<rparr>)"
  using assms by (simp add: remap_def bind_err_def Let_def)

lemma remap_cubic:
  "remap eye3 [(0, 0, 0)] 1
     \<lparr>threepts = ((0, 0, 0), (0, 0, 1), (0, 1, 0)), twovects = ((0, 1, 0), (0, 0, 1)),
            v3 = (1, 0, 0), standardbasis = eye3, millerindex = (1, 0, 0),
            atomcoords = [(0, 0, 0, 0)]\<rparr>
   = Inr \<lparr>threepts = ((0, 0, 0), (0, 0, 1), (0, 1, 0)), twovects = ((0, 1, 0), (0, 0, 1)),
            v3 = (1, 0, 0), standardbasis = eye3, millerindex = (1, 0, 0),
            atomcoords = [(0, 0, 0, 0)]\<rparr>"
proof -
  let ?S = "\<lparr>threepts = ((0, 0, 0), (0, 0, 1), (0, 1, 0)), twovects = ((0, 1, 0), (0, 0, 1)),
            v3 = (1, 0, 0), standardbasis = eye3, millerindex = (1, 0, 0),
            atomcoords = [(0, 0, 0, 0)]\<rparr>"
  have "remap eye3 [(0, 0, 0)] 1 ?S = Inr (?S\<lparr>atomcoords := [(0, 0, 0, 0)]\<rparr>)"
  proof (rule remap_steps [where NewB = "((0, 1, 0), (0, 0, 1), (1, 0, 0))"
        and Sxyz = "([1, 1, 1], [0, 0, 0])" and Cti = "((0, 1, 0), (0, 0, 1), (1, 0, 0))"])
    show "inv3 eye3 = Inr eye3" by (rule inv3_eye3)
    show "inv3 (transpose3 eye3) = Inr eye3" by (simp only: transpose3_eye3 inv3_eye3)
    show "((0, 1, 0), (0, 0, 1), (1, 0, 0)) = (fst (twovects ?S), snd (twovects ?S), v3 ?S)"
      by simp
    show "bounding_box (mat_vec eye3 (row ((0, 1, 0), (0, 0, 1), (1, 0, 0)) 0))
            (mat_vec eye3 (row ((0, 1, 0), (0, 0, 1), (1, 0, 0)) 1))
            (mat_vec eye3 (row ((0, 1, 0), (0, 0, 1), (1, 0, 0)) 2)) = ([1, 1, 1], [0, 0, 0])"
      by (simp add: mat_vec_eye3 bounding_box_cubic)
    show "inv3 (transpose3 (mat_mul ((0, 1, 0), (0, 0, 1), (1, 0, 0)) eye3))
            = Inr ((0, 1, 0), (0, 0, 1), (1, 0, 0))"
      by (simp only: mat_mul_eye3 inv3_cubic)
    show "remove_excess_atoms (map (to_new_basis ((0, 1, 0), (0, 0, 1), (1, 0, 0)))
            (replicate_atoms [(0, 0, 0)] ([1, 1, 1], [0, 0, 0]))) = [(0, 0, 0, 0)]"
      by (simp only: replicate_atoms_cubic retained_cubic)
    show "volume_check (length [(0, 0, 0, 0) :: atom4]) (length [(0, 0, 0) :: vec3])
            (newbasisvolume ?S / 1) = Inr ()"
      by (simp add: volume_check_def newbasisvolume_def eye3_def)
  qed
  then show ?thesis by simp
qed

lemma transformbasis_locals_cubic:
  "transformbasis_locals one_family eye3 [(0, 0, 0)] (NpArray [2]) ()
     = Inr [\<lparr>threepts = ((0, 0, 0), (0, 0, 1), (0, 1, 0)), twovects = ((0, 1, 0), (0, 0, 1)),
              v3 = (1, 0, 0), standardbasis = eye3, millerindex = (1, 0, 0),
              atomcoords = [(0, 0, 0, 0)]\<rparr>]"
proof -
  have len: "length (bravaissup eye3 2) = 8" by (simp add: bravaissup_eye3_2)
  have pv: "\<bar>det3 eye3\<bar> = 1" by (simp add: det3_def eye3_def)
  show ?thesis
    by (simp add: transformbasis_locals_def Let_def bind_err_def len pv enumerate_cubic
          third_vector_cubic gram_schmidt_cubic remap_cubic
          del: third_vector_loop.simps)
qed

subsection \<open>The value of \<^verbatim>\<open>transformbasis\<close>\<close>

text \<open>
  What a call that raises nothing has built in its local \<^verbatim>\<open>ListofS3A2V\<close>:
  \<^verbatim>\<open>maxindex\<close> was a one-element array, the candidates have pairwise distinct Miller
  indices, and each holds a basis with zeros above the diagonal and atoms that pass the
  filter of line 346 and the check of line 358.
\<close>

lemma transformbasis_locals_candidates:
  assumes L: "transformbasis_locals st basis atoms maxindex pg = Inr L"
  shows "(\<exists>m. maxindex = NpArray [m]) \<and> distinct (map millerindex L)
       \<and> (\<forall>S\<in>set L.
             coord (row (standardbasis S) 0) 1 = 0 \<and> coord (row (standardbasis S) 0) 2 = 0
             \<and> coord (row (standardbasis S) 1) 2 = 0
             \<and> (\<forall>a\<in>set (atomcoords S). keep_atom a)
             \<and> volume_check (length (atomcoords S)) (length atoms)
                   (newbasisvolume S / \<bar>det3 basis\<bar>) = Inr ())"
proof -
  from L obtain xs where xs: "maxindex = NpArray xs" "length xs = 1"
    by (cases maxindex)
      (auto simp: transformbasis_locals_def bind_err_def split: if_splits sum.splits)
  then obtain m where m: "xs = [m]" by (cases xs) auto
  let ?pts = "bravaissup basis m"
  from L xs m obtain lo L1 L2 where
    en: "enumerate_loop st basis pg ?pts locals0 (POS (length ?pts)) = Inr lo"
    and th: "third_vector_loop basis (ListofS3A2V lo) (v3_var lo) = Inr L1"
    and gs: "for_each gram_schmidt L1 = Inr L2"
    and rm: "for_each (remap basis atoms \<bar>det3 basis\<bar>) L2 = Inr L"
    by (auto simp: transformbasis_locals_def bind_err_Inr Let_def)
  have inv: "millercheck lo = map millerindex (ListofS3A2V lo)" "distinct (millercheck lo)"
    using enumerate_loop_inv [OF en] by (auto simp: locals0_def)
  have "map millerindex L = map millerindex L2"
    using for_each_map [OF rm] remap_Inr by blast
  also have "\<dots> = map millerindex L1"
    using for_each_map [OF gs] gram_schmidt_Inr by blast
  also have "\<dots> = map millerindex (ListofS3A2V lo)"
    by (rule third_vector_loop_millerindex [OF th])
  finally have dist: "distinct (map millerindex L)" using inv by simp
  have each: "coord (row (standardbasis S) 0) 1 = 0 \<and> coord (row (standardbasis S) 0) 2 = 0
                    \<and> coord (row (standardbasis S) 1) 2 = 0
                    \<and> (\<forall>a\<in>set (atomcoords S). keep_atom a)
                    \<and> volume_check (length (atomcoords S)) (length atoms)
                          (newbasisvolume S / \<bar>det3 basis\<bar>) = Inr ()"
    if "S \<in> set L" for S
  proof -
    from for_each_mem [OF rm that] obtain S2
      where S2: "S2 \<in> set L2" "remap basis atoms \<bar>det3 basis\<bar> S2 = Inr S" by blast
    from for_each_mem [OF gs S2(1)] obtain S1 where S1: "gram_schmidt S1 = Inr S2" by blast
    from remap_Inr [OF S2(2)] gram_schmidt_Inr [OF S1] show ?thesis by simp
  qed
  show ?thesis using xs m dist each by blast
qed

text \<open>
  Claim C2 (fails on the code). The claim takes a scalar bound \<^verbatim>\<open>maxindex\<close>, as
  section 4.3 of the specification does (a positive integer) and as the message of line 70
  does (\<^verbatim>\<open>maxindex must be a number or a vector\<close>). Line 57 takes
  \<^verbatim>\<open>len(maxindex)\<close>: with a Python number as \<^verbatim>\<open>maxindex\<close> the call raises
  \<^verbatim>\<open>TypeError\<close>, whatever the basis, the atoms and the point group are. No call
  evaluates to a list, since the body has no \<^verbatim>\<open>return\<close> with a value: with the bound
  wrapped in the one-element array \<^verbatim>\<open>[2]\<close>, on the cubic lattice with one atom, the
  call builds its candidate and evaluates to \<^verbatim>\<open>None\<close>.
\<close>

theorem transformbasis_number_raises:
  "transformbasis st basis atoms (PyInt n) pg = Inl TypeError
   \<and> transformbasis st basis atoms maxindex pg \<noteq> Inr (PyList L)
   \<and> transformbasis one_family eye3 [(0, 0, 0)] (NpArray [2]) () = Inr PyNone"
proof (intro conjI)
  show "transformbasis st basis atoms (PyInt n) pg = Inl TypeError"
    by (simp add: transformbasis_def transformbasis_locals_def bind_err_def)
  show "transformbasis st basis atoms maxindex pg \<noteq> Inr (PyList L)"
    by (simp add: transformbasis_def bind_err_def split: sum.splits)
  show "transformbasis one_family eye3 [(0, 0, 0)] (NpArray [2]) () = Inr PyNone"
    by (simp add: transformbasis_def transformbasis_locals_cubic bind_err_def)
qed

end
